theory Spec2Isabelle
  imports Complex_Main
begin

section \<open>Sky Fruit Catcher: the game engine (gameEngine.js)\<close>

text \<open>
  The class \<open>GameEngine\<close> is embedded as functions on one record holding the fields of
  \<open>this\<close> together with the part of the browser the engine talks to: the pending
  timers and animation frames, the handle counters, a millisecond clock and the sequence
  of notifications delivered to the registered callbacks.

  JavaScript numbers are idealised: score, level and remaining time are integers,
  positions and speeds are rationals (the literals \<open>0.1\<close>, \<open>0.2\<close>, \<open>0.3\<close>, \<open>0.5\<close> are
  the fractions they denote). The item id \<open>item_n\<close> is represented by the counter
  value \<open>n\<close>.
\<close>

subsection \<open>Data\<close>

record item =
  item_id :: nat
  item_type :: string
  item_points :: int
  item_lane :: string
  item_y :: rat
  item_originalSpeed :: rat
  item_speed :: rat

text \<open>A callback slot holds either a function or null; the callbacks of main.js only
  update the page, so a slot is modelled by whether it is set, and a call of a set slot
  by an entry in the notification sequence.\<close>

record callbacks =
  onScoreChange :: bool
  onGameEnd :: bool
  onTimeUpdate :: bool
  onItemSpawn :: bool
  onItemRemove :: bool
  onBasketMove :: bool
  onEffectChange :: bool
  onRender :: bool

datatype notification =
    ScoreChange int int
  | GameEnd int int string
  | TimeUpdate int
  | ItemSpawn item
  | ItemRemove nat
  | BasketMove string
  | EffectChange bool bool bool
  | Render "item list"

datatype task_kind = Countdown | SpawnTick | FrameTick | MagnetExpiry | TimeSlowExpiry

datatype task = Task (handle: nat) (kind: task_kind) (due: int)

record world =
  score :: int
  level :: int
  timeLimit :: int
  isGameActive :: bool
  gameTimer :: "nat option"
  spawnTimer :: "nat option"
  gameLoopId :: "nat option"
  cbs :: callbacks
  currentPose :: string
  items :: "item list"
  itemCounter :: nat
  basketPosition :: string
  hasShield :: bool
  magnetTimer :: "nat option"
  timeSlowTimer :: "nat option"
  isMagnetActive :: bool
  isTimeSlowActive :: bool
  spawnRate :: int
  baseSpeed :: rat
  pending :: "task list"
  nextTimerId :: nat
  nextFrameId :: nat
  clock :: int
  emitted :: "notification list"

subsection \<open>The browser: timers, animation frames, callbacks\<close>

text \<open>\<open>if (this.onX) this.onX(...)\<close>\<close>

definition emit :: "bool \<Rightarrow> notification \<Rightarrow> world \<Rightarrow> world" where
  "emit registered n s = (if registered then s\<lparr>emitted := emitted s @ [n]\<rparr> else s)"

text \<open>\<open>setTimeout\<close> and \<open>setInterval\<close> draw their handles from one pool of positive
  integers, \<open>requestAnimationFrame\<close> from another. Clearing a handle that is null or
  not pending does nothing.\<close>

definition is_timer :: "task \<Rightarrow> bool" where
  "is_timer t = (kind t \<noteq> FrameTick)"

definition setTimer :: "task_kind \<Rightarrow> int \<Rightarrow> world \<Rightarrow> nat \<times> world" where
  "setTimer k delay s =
     (nextTimerId s,
      s\<lparr>pending := pending s @ [Task (nextTimerId s) k (clock s + delay)],
        nextTimerId := nextTimerId s + 1\<rparr>)"

definition clearTimer :: "nat option \<Rightarrow> world \<Rightarrow> world" where
  "clearTimer h s =
     s\<lparr>pending := filter (\<lambda>t. \<not> (is_timer t \<and> Some (handle t) = h)) (pending s)\<rparr>"

definition requestAnimationFrame :: "world \<Rightarrow> nat \<times> world" where
  "requestAnimationFrame s =
     (nextFrameId s,
      s\<lparr>pending := pending s @ [Task (nextFrameId s) FrameTick (clock s)],
        nextFrameId := nextFrameId s + 1\<rparr>)"

definition cancelAnimationFrame :: "nat option \<Rightarrow> world \<Rightarrow> world" where
  "cancelAnimationFrame h s =
     s\<lparr>pending := filter (\<lambda>t. \<not> (\<not> is_timer t \<and> Some (handle t) = h)) (pending s)\<rparr>"

text \<open>The truth value of a handle field: null is false, and so is the number 0.\<close>

definition truthy :: "nat option \<Rightarrow> bool" where
  "truthy h = (case h of None \<Rightarrow> False | Some n \<Rightarrow> n \<noteq> 0)"

subsection \<open>The engine\<close>

definition new_GameEngine :: world where
  "new_GameEngine =
     \<lparr>score = 0, level = 1, timeLimit = 0, isGameActive = False,
      gameTimer = None, spawnTimer = None, gameLoopId = None,
      cbs = \<lparr>onScoreChange = False, onGameEnd = False, onTimeUpdate = False,
             onItemSpawn = False, onItemRemove = False, onBasketMove = False,
             onEffectChange = False, onRender = False\<rparr>,
      currentPose = ''Center'', items = [], itemCounter = 0, basketPosition = ''Center'',
      hasShield = False, magnetTimer = None, timeSlowTimer = None,
      isMagnetActive = False, isTimeSlowActive = False,
      spawnRate = 2000, baseSpeed = 1/2,
      pending = [], nextTimerId = 1, nextFrameId = 1, clock = 0, emitted = []\<rparr>"

definition notifyEffects :: "world \<Rightarrow> world" where
  "notifyEffects s =
     emit (onEffectChange (cbs s))
       (EffectChange (hasShield s) (isMagnetActive s) (isTimeSlowActive s)) s"

definition disableMagnet :: "world \<Rightarrow> world" where
  "disableMagnet s =
     (let s1 = s\<lparr>isMagnetActive := False\<rparr>;
          s2 = notifyEffects s1
      in if truthy (magnetTimer s2) then clearTimer (magnetTimer s2) s2 else s2)"

definition disableTimeSlow :: "world \<Rightarrow> world" where
  "disableTimeSlow s =
     (let s1 = s\<lparr>isTimeSlowActive := False\<rparr>;
          s2 = notifyEffects s1
      in if truthy (timeSlowTimer s2) then clearTimer (timeSlowTimer s2) s2 else s2)"

definition activateMagnet :: "world \<Rightarrow> world" where
  "activateMagnet s =
     (let s1 = s\<lparr>isMagnetActive := True\<rparr>;
          s2 = notifyEffects s1;
          s3 = (if truthy (magnetTimer s2) then clearTimer (magnetTimer s2) s2 else s2);
          (h, s4) = setTimer MagnetExpiry 5000 s3
      in s4\<lparr>magnetTimer := Some h\<rparr>)"

definition activateTimeSlow :: "world \<Rightarrow> world" where
  "activateTimeSlow s =
     (let s1 = s\<lparr>isTimeSlowActive := True\<rparr>;
          s2 = notifyEffects s1;
          s3 = (if truthy (timeSlowTimer s2) then clearTimer (timeSlowTimer s2) s2 else s2);
          (h, s4) = setTimer TimeSlowExpiry 5000 s3
      in s4\<lparr>timeSlowTimer := Some h\<rparr>)"

definition stop :: "world \<Rightarrow> string \<Rightarrow> world" where
  "stop s reason =
     (let s1 = s\<lparr>isGameActive := False\<rparr>;
          s2 = clearTimer (gameTimer s1) s1;
          s3 = clearTimer (spawnTimer s2) s2;
          s4 = cancelAnimationFrame (gameLoopId s3) s3;
          s5 = disableMagnet s4;
          s6 = disableTimeSlow s5
      in emit (onGameEnd (cbs s6)) (GameEnd (score s6) (level s6) reason) s6)"

definition addScore :: "world \<Rightarrow> int \<Rightarrow> world" where
  "addScore s pts =
     (let s1 = s\<lparr>score := score s + pts\<rparr>
      in emit (onScoreChange (cbs s1)) (ScoreChange (score s1) (level s1)) s1)"

text \<open>The body of the interval callback installed by \<open>startTimer\<close>.\<close>

definition timerTick :: "world \<Rightarrow> world" where
  "timerTick s =
     (let s1 = s\<lparr>timeLimit := timeLimit s - 1\<rparr>;
          s2 = emit (onTimeUpdate (cbs s1)) (TimeUpdate (timeLimit s1)) s1;
          s3 = (if timeLimit s2 = 40 \<or> timeLimit s2 = 20
                then (let s2a = s2\<lparr>level := level s2 + 1\<rparr>;
                          s2b = s2a\<lparr>baseSpeed := baseSpeed s2a + 1/10\<rparr>
                      in emit (onScoreChange (cbs s2b)) (ScoreChange (score s2b) (level s2b)) s2b)
                else s2)
      in if timeLimit s3 \<le> 0 then stop s3 ''Timeout'' else s3)"

definition startTimer :: "world \<Rightarrow> world" where
  "startTimer s = (let (h, s1) = setTimer Countdown 1000 s in s1\<lparr>gameTimer := Some h\<rparr>)"

definition lanes :: "string list" where
  "lanes = [''Left'', ''Center'', ''Right'']"

text \<open>\<open>lanes[i]\<close>; a read outside the array yields \<open>undefined\<close>, which equals no lane.
  With a draw in \<open>[0,1)\<close> the index is 0, 1 or 2.\<close>

definition lane_at :: "int \<Rightarrow> string" where
  "lane_at i = (if 0 \<le> i \<and> i < int (length lanes) then lanes ! nat i else ''undefined'')"

text \<open>The kind and point value chosen for the draw \<open>rand\<close>.\<close>

definition chooseType :: "rat \<Rightarrow> string \<times> int" where
  "chooseType rand =
     (if rand < 15/100 then (''Bomb'', 0)
      else if rand < 25/100 then (''Banana'', 200)
      else if rand < 30/100 then (''Shield'', 0)
      else if rand < 35/100 then (''Magnet'', 0)
      else if rand < 40/100 then (''Time'', 0)
      else (''Apple'', 100))"

text \<open>\<open>spawnItem\<close>; \<open>r1\<close> and \<open>rand\<close> are the two results of \<open>Math.random()\<close>.\<close>

definition newItem :: "world \<Rightarrow> rat \<Rightarrow> rat \<Rightarrow> item" where
  "newItem s r1 rand =
     (let lane = lane_at \<lfloor>r1 * of_nat (length lanes)\<rfloor>;
          (type, pts) = chooseType rand;
          speed = (if type = ''Banana'' then baseSpeed s + 2/10 else baseSpeed s)
      in \<lparr>item_id = itemCounter s, item_type = type, item_points = pts, item_lane = lane,
          item_y = 0, item_originalSpeed = speed, item_speed = speed\<rparr>)"

definition spawnItem :: "world \<Rightarrow> rat \<Rightarrow> rat \<Rightarrow> world" where
  "spawnItem s r1 rand =
     (let it = newItem s r1 rand;
          s1 = s\<lparr>itemCounter := itemCounter s + 1\<rparr>;
          s2 = s1\<lparr>items := items s1 @ [it]\<rparr>
      in emit (onItemSpawn (cbs s2)) (ItemSpawn it) s2)"

text \<open>The closure \<open>spawn\<close> of \<open>startSpawning\<close>.\<close>

definition spawn :: "world \<Rightarrow> rat \<Rightarrow> rat \<Rightarrow> world" where
  "spawn s r1 rand =
     (if \<not> isGameActive s then s
      else (let s1 = spawnItem s r1 rand;
                nextSpawnTime = 2000 - level s1 * 200;
                nextSpawnTime' = (if nextSpawnTime < 800 then 800 else nextSpawnTime);
                (h, s2) = setTimer SpawnTick nextSpawnTime' s1
            in s2\<lparr>spawnTimer := Some h\<rparr>))"

definition startSpawning :: "world \<Rightarrow> rat \<Rightarrow> rat \<Rightarrow> world" where
  "startSpawning s r1 rand = spawn s r1 rand"

definition collectible :: "string list" where
  "collectible = [''Apple'', ''Banana'', ''Shield'', ''Magnet'', ''Time'']"

definition handleCatch :: "world \<Rightarrow> item \<Rightarrow> world" where
  "handleCatch s it =
     (if item_type it = ''Bomb'' then
        (if hasShield s then notifyEffects (s\<lparr>hasShield := False\<rparr>)
         else stop s ''Bomb'')
      else if item_type it = ''Shield'' then notifyEffects (s\<lparr>hasShield := True\<rparr>)
      else if item_type it = ''Magnet'' then activateMagnet s
      else if item_type it = ''Time'' then activateTimeSlow s
      else if item_type it = ''Banana'' then addScore s 200
      else addScore s 100)"

text \<open>The first pass of \<open>updatePhysics\<close> (\<open>forEach\<close>): fall, and the magnet's pull.\<close>

definition advance :: "world \<Rightarrow> item \<Rightarrow> item" where
  "advance s it =
     (let currentSpeed = (if isTimeSlowActive s then item_originalSpeed it * (1/2)
                          else item_originalSpeed it);
          it1 = it\<lparr>item_y := item_y it + currentSpeed\<rparr>
      in if isMagnetActive s \<and> item_y it1 > 50 \<and> item_type it1 \<in> set collectible
         then (if item_lane it1 \<noteq> basketPosition s
               then it1\<lparr>item_lane := basketPosition s\<rparr> else it1)
         else it1)"

text \<open>The callback of the second pass (\<open>filter\<close>): the state after it, and whether the
  item is kept.\<close>

definition collide :: "world \<Rightarrow> item \<Rightarrow> world \<times> bool" where
  "collide s it =
     (if item_y it > 100 then (emit (onItemRemove (cbs s)) (ItemRemove (item_id it)) s, False)
      else if item_y it > 80 \<and> item_y it < 95 then
        (let caught = (item_lane it = basketPosition s);
             caught' = (if isMagnetActive s \<and> item_type it \<in> set collectible
                        then True else caught)
         in if caught'
            then (let s1 = handleCatch s it
                  in (emit (onItemRemove (cbs s1)) (ItemRemove (item_id it)) s1, False))
            else (s, True))
      else (s, True))"

fun filterItems :: "world \<Rightarrow> item list \<Rightarrow> world \<times> item list" where
  "filterItems s [] = (s, [])"
| "filterItems s (it # rest) =
     (let (s1, keep) = collide s it;
          (s2, kept) = filterItems s1 rest
      in (s2, if keep then it # kept else kept))"

definition updatePhysics :: "world \<Rightarrow> world" where
  "updatePhysics s =
     (let s1 = s\<lparr>items := map (advance s) (items s)\<rparr>;
          (s2, kept) = filterItems s1 (items s1);
          s3 = s2\<lparr>items := kept\<rparr>
      in emit (onRender (cbs s3)) (Render (items s3)) s3)"

text \<open>The closure \<open>loop\<close> of \<open>startGameLoop\<close>.\<close>

definition loop :: "world \<Rightarrow> world" where
  "loop s =
     (if \<not> isGameActive s then s
      else (let s1 = updatePhysics s;
                (h, s2) = requestAnimationFrame s1
            in s2\<lparr>gameLoopId := Some h\<rparr>))"

definition startGameLoop :: "world \<Rightarrow> world" where
  "startGameLoop s = (let (h, s1) = requestAnimationFrame s in s1\<lparr>gameLoopId := Some h\<rparr>)"

text \<open>\<open>start(config)\<close>; \<open>cfg\<close> is \<open>config.timeLimit\<close> (\<open>None\<close> when absent), and the two
  draws are those of the first spawn, which \<open>startSpawning\<close> performs at once.\<close>

definition start :: "world \<Rightarrow> int option \<Rightarrow> rat \<Rightarrow> rat \<Rightarrow> world" where
  "start s cfg r1 rand =
     (if isGameActive s then s
      else (let s1 = s\<lparr>isGameActive := True\<rparr>;
                s2 = s1\<lparr>score := 0\<rparr>;
                s3 = s2\<lparr>level := 1\<rparr>;
                s4 = s3\<lparr>timeLimit := (case cfg of None \<Rightarrow> 60
                                      | Some t \<Rightarrow> if t = 0 then 60 else t)\<rparr>;
                s5 = s4\<lparr>items := []\<rparr>;
                s6 = s5\<lparr>currentPose := ''Center''\<rparr>;
                s7 = s6\<lparr>basketPosition := ''Center''\<rparr>;
                s8 = s7\<lparr>baseSpeed := 3/10\<rparr>;
                s9 = s8\<lparr>hasShield := False\<rparr>;
                s10 = disableMagnet s9;
                s11 = disableTimeSlow s10;
                s12 = notifyEffects s11;
                s13 = startTimer s12;
                s14 = startSpawning s13 r1 rand
            in startGameLoop s14))"

definition onPoseDetected :: "world \<Rightarrow> string \<Rightarrow> world" where
  "onPoseDetected s detectedPose =
     (if \<not> isGameActive s then s
      else if detectedPose \<in> set lanes
      then (let s1 = s\<lparr>basketPosition := detectedPose\<rparr>
            in emit (onBasketMove (cbs s1)) (BasketMove (basketPosition s1)) s1)
      else s)"

subsection \<open>Sessions: what the page and the browser do to the engine\<close>

datatype slot =
    ScoreChangeSlot | GameEndSlot | BasketMoveSlot | ItemSpawnSlot
  | ItemRemoveSlot | RenderSlot | TimeUpdateSlot | EffectChangeSlot

text \<open>The eight setters; \<open>b\<close> tells whether the value stored is a function.\<close>

definition setCallback :: "world \<Rightarrow> slot \<Rightarrow> bool \<Rightarrow> world" where
  "setCallback s sl b =
     (case sl of
        ScoreChangeSlot \<Rightarrow> s\<lparr>cbs := (cbs s)\<lparr>onScoreChange := b\<rparr>\<rparr>
      | GameEndSlot \<Rightarrow> s\<lparr>cbs := (cbs s)\<lparr>onGameEnd := b\<rparr>\<rparr>
      | BasketMoveSlot \<Rightarrow> s\<lparr>cbs := (cbs s)\<lparr>onBasketMove := b\<rparr>\<rparr>
      | ItemSpawnSlot \<Rightarrow> s\<lparr>cbs := (cbs s)\<lparr>onItemSpawn := b\<rparr>\<rparr>
      | ItemRemoveSlot \<Rightarrow> s\<lparr>cbs := (cbs s)\<lparr>onItemRemove := b\<rparr>\<rparr>
      | RenderSlot \<Rightarrow> s\<lparr>cbs := (cbs s)\<lparr>onRender := b\<rparr>\<rparr>
      | TimeUpdateSlot \<Rightarrow> s\<lparr>cbs := (cbs s)\<lparr>onTimeUpdate := b\<rparr>\<rparr>
      | EffectChangeSlot \<Rightarrow> s\<lparr>cbs := (cbs s)\<lparr>onEffectChange := b\<rparr>\<rparr>)"

text \<open>The browser runs a pending timer callback once its time has come. A timeout is
  dropped from the pending tasks when it runs; an interval stays, due again a second
  later, until it is cleared. The two draws are used when the callback is \<open>spawn\<close>.\<close>

definition fireTimer :: "world \<Rightarrow> nat \<Rightarrow> rat \<Rightarrow> rat \<Rightarrow> world" where
  "fireTimer s h r1 rand =
     (case find (\<lambda>t. is_timer t \<and> handle t = h \<and> due t \<le> clock s) (pending s) of
        None \<Rightarrow> s
      | Some t \<Rightarrow>
          (case kind t of
             Countdown \<Rightarrow>
               timerTick (s\<lparr>pending :=
                 map (\<lambda>u. if u = t then Task (handle t) Countdown (due t + 1000) else u)
                   (pending s)\<rparr>)
           | SpawnTick \<Rightarrow> spawn (s\<lparr>pending := filter (\<lambda>u. u \<noteq> t) (pending s)\<rparr>) r1 rand
           | MagnetExpiry \<Rightarrow> disableMagnet (s\<lparr>pending := filter (\<lambda>u. u \<noteq> t) (pending s)\<rparr>)
           | TimeSlowExpiry \<Rightarrow>
               disableTimeSlow (s\<lparr>pending := filter (\<lambda>u. u \<noteq> t) (pending s)\<rparr>)
           | FrameTick \<Rightarrow> s))"

definition fireFrame :: "world \<Rightarrow> nat \<Rightarrow> world" where
  "fireFrame s h =
     (case find (\<lambda>t. \<not> is_timer t \<and> handle t = h) (pending s) of
        None \<Rightarrow> s
      | Some t \<Rightarrow> loop (s\<lparr>pending := filter (\<lambda>u. u \<noteq> t) (pending s)\<rparr>))"

datatype action =
    CallStart "int option" rat rat
  | CallStop "string option"
  | CallPose string
  | CallSet slot bool
  | Elapse nat
  | FireTimer nat rat rat
  | FireFrame nat

fun step :: "world \<Rightarrow> action \<Rightarrow> world" where
  "step s (CallStart cfg r1 rand) = start s cfg r1 rand"
| "step s (CallStop reason) = stop s (case reason of None \<Rightarrow> ''Unknown'' | Some r \<Rightarrow> r)"
| "step s (CallPose p) = onPoseDetected s p"
| "step s (CallSet sl b) = setCallback s sl b"
| "step s (Elapse d) = s\<lparr>clock := clock s + int d\<rparr>"
| "step s (FireTimer h r1 rand) = fireTimer s h r1 rand"
| "step s (FireFrame h) = fireFrame s h"

definition run :: "world \<Rightarrow> action list \<Rightarrow> world" where
  "run s as = foldl step s as"

subsection \<open>What \<open>stop\<close> cancels and announces\<close>

text \<open>\<open>if (h) clearTimeout(h)\<close> on the pending tasks.\<close>

definition clearIf :: "nat option \<Rightarrow> task list \<Rightarrow> task list" where
  "clearIf h ts =
     (if truthy h then filter (\<lambda>t. \<not> (is_timer t \<and> Some (handle t) = h)) ts else ts)"

text \<open>The tasks still pending after \<open>stop\<close>: the interval, the spawn timeout, the
  animation frame and the two expiry timeouts whose handles the engine holds are gone.\<close>

definition stop_pending :: "world \<Rightarrow> task list" where
  "stop_pending s =
     clearIf (timeSlowTimer s) (clearIf (magnetTimer s)
       (filter (\<lambda>t. \<not> (\<not> is_timer t \<and> Some (handle t) = gameLoopId s))
         (filter (\<lambda>t. \<not> (is_timer t \<and> Some (handle t) = spawnTimer s))
           (filter (\<lambda>t. \<not> (is_timer t \<and> Some (handle t) = gameTimer s)) (pending s)))))"

text \<open>The notifications of one call of \<open>stop\<close>: two effect changes (from
  \<open>disableMagnet\<close> and \<open>disableTimeSlow\<close>), then the game end.\<close>

definition stop_emits :: "world \<Rightarrow> string \<Rightarrow> notification list" where
  "stop_emits s reason =
     (if onEffectChange (cbs s)
      then [EffectChange (hasShield s) False (isTimeSlowActive s),
            EffectChange (hasShield s) False False] else [])
     @ (if onGameEnd (cbs s) then [GameEnd (score s) (level s) reason] else [])"

subsection \<open>Timer ownership\<close>

definition count_kind :: "task_kind \<Rightarrow> task list \<Rightarrow> nat" where
  "count_kind k ts = length (filter (\<lambda>t. kind t = k) ts)"

text \<open>At most one task of kind \<open>k\<close> is pending, and the field \<open>h\<close> holds its handle.\<close>

definition owned :: "task_kind \<Rightarrow> nat option \<Rightarrow> task list \<Rightarrow> bool" where
  "owned k h ts =
     (count_kind k ts \<le> 1 \<and>
      list_all (\<lambda>t. kind t = k \<longrightarrow> handle t \<noteq> 0 \<and> h = Some (handle t)) ts)"

definition timers_ok :: "world \<Rightarrow> bool" where
  "timers_ok s =
     (owned MagnetExpiry (magnetTimer s) (pending s) \<and>
      owned TimeSlowExpiry (timeSlowTimer s) (pending s) \<and>
      owned Countdown (gameTimer s) (pending s) \<and>
      owned SpawnTick (spawnTimer s) (pending s) \<and>
      (\<not> isGameActive s \<longrightarrow>
         count_kind Countdown (pending s) = 0 \<and> count_kind SpawnTick (pending s) = 0) \<and>
      nextTimerId s \<noteq> 0)"

subsection \<open>Sample sessions\<close>

text \<open>The number of game-end notifications in a notification sequence.\<close>

definition game_ends :: "notification list \<Rightarrow> nat" where
  "game_ends ns = length (filter (\<lambda>n. case n of GameEnd _ _ _ \<Rightarrow> True | _ \<Rightarrow> False) ns)"

text \<open>An engine with all eight callbacks registered, as main.js sets it up; a session
  started on it; the same session with Shield, Magnet and TimeSlow active; and an item of
  a given kind, lane and position.\<close>

definition listening :: world where
  "listening = run new_GameEngine
     [CallSet ScoreChangeSlot True, CallSet GameEndSlot True, CallSet BasketMoveSlot True,
      CallSet ItemSpawnSlot True, CallSet ItemRemoveSlot True, CallSet RenderSlot True,
      CallSet TimeUpdateSlot True, CallSet EffectChangeSlot True]"

definition started :: world where
  "started = step listening (CallStart (Some 60) (1/2) (1/2))"

definition boosted :: world where
  "boosted = activateTimeSlow (activateMagnet (started\<lparr>hasShield := True\<rparr>))"

definition sample :: "string \<Rightarrow> string \<Rightarrow> rat \<Rightarrow> item" where
  "sample ty lane0 pos =
     \<lparr>item_id = 7, item_type = ty, item_points = snd (chooseType (if ty = ''Bomb'' then 0 else 1)),
      item_lane = lane0, item_y = pos, item_originalSpeed = 3/10, item_speed = 3/10\<rparr>"

text \<open>A session in which a Magnet was caught three seconds ago.\<close>

definition magnet_twice :: world where
  "magnet_twice = step (handleCatch started (sample ''Magnet'' ''Left'' 90)) (Elapse 3000)"

text \<open>The kinds \<open>spawnItem\<close> can produce.\<close>

definition kinds :: "string list" where
  "kinds = [''Apple'', ''Banana'', ''Bomb'', ''Shield'', ''Magnet'', ''Time'']"

text \<open>Calls of \<open>start\<close>, which open a new session, and deliveries of animation frames.\<close>

fun is_start :: "action \<Rightarrow> bool" where
  "is_start (CallStart cfg r1 rand) = True"
| "is_start a = False"

fun is_frame :: "action \<Rightarrow> bool" where
  "is_frame (FireFrame h) = True"
| "is_frame a = False"

definition kinds_ok :: "world \<Rightarrow> bool" where
  "kinds_ok s = list_all (\<lambda>it. item_type it \<in> set kinds) (items s)"

text \<open>A session in which a Bomb and, behind it in spawn order, an Apple and a Shield
  are about to enter the catch band in the basket's lane.\<close>

definition bomb_first :: world where
  "bomb_first = started\<lparr>items :=
     [(sample ''Bomb'' ''Center'' (807/10))\<lparr>item_id := 1\<rparr>,
      (sample ''Apple'' ''Center'' (804/10))\<lparr>item_id := 2\<rparr>,
      (sample ''Shield'' ''Center'' (801/10))\<lparr>item_id := 3\<rparr>]\<rparr>"

text \<open>An item after \<open>n\<close> ticks of undisturbed fall, and the delivery of \<open>n\<close> successive
  animation frames, the first with handle \<open>h\<close>.\<close>

definition fall :: "nat \<Rightarrow> item \<Rightarrow> item" where
  "fall n it = it\<lparr>item_y := item_y it + of_nat n * item_originalSpeed it\<rparr>"

definition frames :: "nat \<Rightarrow> nat \<Rightarrow> action list" where
  "frames h n = map FireFrame [h..<h + n]"

text \<open>A whole session: a Bomb spawns in the centre lane while the basket is moved to the
  left; 1.8 seconds and 108 frames later a Banana spawns in the centre lane and gains on
  the Bomb; the basket is moved to the centre when both are about to enter the catch
  band.\<close>

definition bomb_then_banana :: "action list" where
  "bomb_then_banana =
     [CallSet ScoreChangeSlot True, CallSet GameEndSlot True, CallSet ItemRemoveSlot True,
      CallSet EffectChangeSlot True,
      CallStart (Some 60) (1/2) (1/10), CallPose ''Left'']
     @ frames 1 108
     @ [Elapse 1800, FireTimer 2 (1/2) (2/10), FireFrame 109]
     @ frames 110 160
     @ [CallPose ''Center'', FireFrame 270]"

section \<open>Properties\<close>

subsection \<open>Each method as one record update\<close>

lemma emit_eq: "emit b n s = s\<lparr>emitted := emitted s @ (if b then [n] else [])\<rparr>"
  by (simp add: emit_def)

lemma notifyEffects_eq:
  "notifyEffects s =
     s\<lparr>emitted := emitted s @
        (if onEffectChange (cbs s)
         then [EffectChange (hasShield s) (isMagnetActive s) (isTimeSlowActive s)] else [])\<rparr>"
  by (simp add: notifyEffects_def emit_eq)

lemma disableMagnet_eq:
  "disableMagnet s =
     s\<lparr>isMagnetActive := False,
       pending := clearIf (magnetTimer s) (pending s),
       emitted := emitted s @
         (if onEffectChange (cbs s)
          then [EffectChange (hasShield s) False (isTimeSlowActive s)] else [])\<rparr>"
  by (simp add: disableMagnet_def notifyEffects_eq clearTimer_def clearIf_def Let_def)

lemma disableTimeSlow_eq:
  "disableTimeSlow s =
     s\<lparr>isTimeSlowActive := False,
       pending := clearIf (timeSlowTimer s) (pending s),
       emitted := emitted s @
         (if onEffectChange (cbs s)
          then [EffectChange (hasShield s) (isMagnetActive s) False] else [])\<rparr>"
  by (simp add: disableTimeSlow_def notifyEffects_eq clearTimer_def clearIf_def Let_def)

lemma activateMagnet_eq:
  "activateMagnet s =
     s\<lparr>isMagnetActive := True,
       magnetTimer := Some (nextTimerId s),
       pending := clearIf (magnetTimer s) (pending s)
                  @ [Task (nextTimerId s) MagnetExpiry (clock s + 5000)],
       nextTimerId := nextTimerId s + 1,
       emitted := emitted s @
         (if onEffectChange (cbs s)
          then [EffectChange (hasShield s) True (isTimeSlowActive s)] else [])\<rparr>"
  by (simp add: activateMagnet_def notifyEffects_eq clearTimer_def clearIf_def
      setTimer_def Let_def)

lemma activateTimeSlow_eq:
  "activateTimeSlow s =
     s\<lparr>isTimeSlowActive := True,
       timeSlowTimer := Some (nextTimerId s),
       pending := clearIf (timeSlowTimer s) (pending s)
                  @ [Task (nextTimerId s) TimeSlowExpiry (clock s + 5000)],
       nextTimerId := nextTimerId s + 1,
       emitted := emitted s @
         (if onEffectChange (cbs s)
          then [EffectChange (hasShield s) (isMagnetActive s) True] else [])\<rparr>"
  by (simp add: activateTimeSlow_def notifyEffects_eq clearTimer_def clearIf_def
      setTimer_def Let_def)

lemma stop_eq:
  "stop s reason =
     s\<lparr>isGameActive := False, isMagnetActive := False, isTimeSlowActive := False,
       pending := stop_pending s,
       emitted := emitted s @ stop_emits s reason\<rparr>"
  by (simp add: stop_def disableMagnet_eq disableTimeSlow_eq clearTimer_def
      cancelAnimationFrame_def emit_eq stop_pending_def stop_emits_def Let_def)

lemma addScore_eq:
  "addScore s pts =
     s\<lparr>score := score s + pts,
       emitted := emitted s @
         (if onScoreChange (cbs s) then [ScoreChange (score s + pts) (level s)] else [])\<rparr>"
  by (simp add: addScore_def emit_eq Let_def)

subsection \<open>Counting pending tasks\<close>

lemma count_kind_filter_le: "count_kind k (filter P ts) \<le> count_kind k ts"
  unfolding count_kind_def by (induction ts) auto

lemma count_kind_append [simp]: "count_kind k (ts @ us) = count_kind k ts + count_kind k us"
  by (simp add: count_kind_def)

lemma count_kind_single [simp]: "count_kind k [t] = (if kind t = k then 1 else 0)"
  by (simp add: count_kind_def)

lemma count_kind_zero_iff: "count_kind k ts = 0 \<longleftrightarrow> (\<forall>t\<in>set ts. kind t \<noteq> k)"
  by (auto simp: count_kind_def filter_empty_conv)

lemma owned_filter: "owned k h ts \<Longrightarrow> owned k h (filter P ts)"
  using count_kind_filter_le[of k P ts] by (auto simp: owned_def list_all_iff)

lemma owned_clearIf: "owned k h ts \<Longrightarrow> owned k h (clearIf g ts)"
  by (simp add: clearIf_def owned_filter)

lemma count_kind_zero_filter: "count_kind k ts = 0 \<Longrightarrow> count_kind k (filter P ts) = 0"
  by (auto simp: count_kind_zero_iff)

lemma count_kind_zero_clearIf: "count_kind k ts = 0 \<Longrightarrow> count_kind k (clearIf g ts) = 0"
  by (simp add: clearIf_def count_kind_zero_filter)

lemma owned_snoc_other:
  "kind t \<noteq> k \<Longrightarrow> owned k h (ts @ [t]) = owned k h ts"
  by (simp add: owned_def)

lemma owned_cleared:
  "owned k h ts \<Longrightarrow> k \<noteq> FrameTick \<Longrightarrow> count_kind k (clearIf h ts) = 0"
  by (auto simp: owned_def list_all_iff clearIf_def count_kind_zero_iff truthy_def is_timer_def)

lemma owned_cleared_filter:
  "owned k h ts \<Longrightarrow> k \<noteq> FrameTick \<Longrightarrow>
   count_kind k (filter (\<lambda>t. \<not> (is_timer t \<and> Some (handle t) = h)) ts) = 0"
  by (auto simp: owned_def list_all_iff count_kind_zero_iff is_timer_def)

lemma owned_fresh:
  assumes "count_kind k ts = 0" "n \<noteq> 0"
  shows "owned k (Some n) (ts @ [Task n k d])"
proof -
  from assms(1) have "\<forall>t\<in>set ts. kind t \<noteq> k" by (simp add: count_kind_zero_iff)
  with assms show ?thesis by (simp add: owned_def list_all_iff)
qed

lemma owned_zero:
  assumes "count_kind k ts = 0"
  shows "owned k h ts"
proof -
  from assms have "\<forall>t\<in>set ts. kind t \<noteq> k" by (simp add: count_kind_zero_iff)
  with assms show ?thesis by (simp add: owned_def list_all_iff)
qed

lemma count_kind_fired:
  assumes "count_kind k ts \<le> 1" "t \<in> set ts" "kind t = k"
  shows "count_kind k (filter (\<lambda>u. u \<noteq> t) ts) = 0"
proof -
  have "filter (\<lambda>u. kind u = k) ts = [t]"
  proof -
    from assms(2,3) have "t \<in> set (filter (\<lambda>u. kind u = k) ts)" by simp
    moreover from assms(1) have "length (filter (\<lambda>u. kind u = k) ts) \<le> 1"
      by (simp add: count_kind_def)
    ultimately show ?thesis
      by (cases "filter (\<lambda>u. kind u = k) ts") auto
  qed
  then have "set (filter (\<lambda>u. kind u = k) ts) = {t}" by simp
  then have "\<forall>u\<in>set ts. kind u = k \<longrightarrow> u = t" by auto
  then show ?thesis by (auto simp: count_kind_zero_iff)
qed

lemma owned_map:
  assumes "owned k h ts" "\<And>t. kind (f t) = kind t" "\<And>t. handle (f t) = handle t"
  shows "owned k h (map f ts)"
proof -
  have "filter (\<lambda>t. kind t = k) (map f ts) = map f (filter (\<lambda>t. kind t = k) ts)"
    by (simp add: filter_map comp_def assms(2))
  then show ?thesis using assms by (auto simp: owned_def count_kind_def list_all_iff)
qed

lemma count_kind_map:
  assumes "\<And>t. kind (f t) = kind t"
  shows "count_kind k (map f ts) = count_kind k ts"
  by (simp add: count_kind_def filter_map comp_def assms)

subsection \<open>The engine keeps track of its timers\<close>

lemma timers_ok_emit [simp]: "timers_ok (emit b n s) = timers_ok s"
  by (simp add: timers_ok_def emit_eq)

lemma timers_ok_notifyEffects [simp]: "timers_ok (notifyEffects s) = timers_ok s"
  by (simp add: notifyEffects_def)

lemma timers_ok_disableMagnet: "timers_ok s \<Longrightarrow> timers_ok (disableMagnet s)"
  by (simp add: timers_ok_def disableMagnet_eq owned_clearIf count_kind_zero_clearIf)

lemma timers_ok_disableTimeSlow: "timers_ok s \<Longrightarrow> timers_ok (disableTimeSlow s)"
  by (simp add: timers_ok_def disableTimeSlow_eq owned_clearIf count_kind_zero_clearIf)

lemma timers_ok_activateMagnet: "timers_ok s \<Longrightarrow> timers_ok (activateMagnet s)"
  by (simp add: timers_ok_def activateMagnet_eq owned_clearIf count_kind_zero_clearIf
      owned_snoc_other owned_fresh owned_cleared)

lemma timers_ok_activateTimeSlow: "timers_ok s \<Longrightarrow> timers_ok (activateTimeSlow s)"
  by (simp add: timers_ok_def activateTimeSlow_eq owned_clearIf count_kind_zero_clearIf
      owned_snoc_other owned_fresh owned_cleared)

lemma owned_stop_pending: "owned k h (pending s) \<Longrightarrow> owned k h (stop_pending s)"
  unfolding stop_pending_def by (intro owned_clearIf owned_filter)

lemma stop_pending_Countdown:
  "owned Countdown (gameTimer s) (pending s) \<Longrightarrow> count_kind Countdown (stop_pending s) = 0"
  unfolding stop_pending_def
  by (intro count_kind_zero_clearIf count_kind_zero_filter owned_cleared_filter) simp_all

lemma stop_pending_SpawnTick:
  "owned SpawnTick (spawnTimer s) (pending s) \<Longrightarrow> count_kind SpawnTick (stop_pending s) = 0"
  unfolding stop_pending_def
  by (intro count_kind_zero_clearIf count_kind_zero_filter owned_cleared_filter owned_filter)
    simp_all

lemma timers_ok_stop: "timers_ok s \<Longrightarrow> timers_ok (stop s reason)"
  by (simp add: timers_ok_def stop_eq owned_stop_pending stop_pending_Countdown
      stop_pending_SpawnTick)

lemma timers_ok_addScore [simp]: "timers_ok (addScore s pts) = timers_ok s"
  by (simp add: timers_ok_def addScore_eq)

lemma timers_ok_handleCatch: "timers_ok s \<Longrightarrow> timers_ok (handleCatch s it)"
  by (simp add: handleCatch_def timers_ok_stop timers_ok_activateMagnet
      timers_ok_activateTimeSlow) (simp add: timers_ok_def)

lemma timers_ok_collide: "timers_ok s \<Longrightarrow> timers_ok (fst (collide s it))"
  by (simp add: collide_def Let_def timers_ok_handleCatch)

lemma timers_ok_filterItems: "timers_ok s \<Longrightarrow> timers_ok (fst (filterItems s its))"
proof (induction its arbitrary: s)
  case Nil
  then show ?case by simp
next
  case (Cons it rest)
  from Cons.prems have "timers_ok (fst (collide s it))" by (rule timers_ok_collide)
  then have "timers_ok (fst (filterItems (fst (collide s it)) rest))" by (rule Cons.IH)
  then show ?case by (simp add: split_def Let_def)
qed

lemma timers_ok_items [simp]: "timers_ok (s\<lparr>items := xs\<rparr>) = timers_ok s"
  by (simp add: timers_ok_def)

lemma timers_ok_updatePhysics: "timers_ok s \<Longrightarrow> timers_ok (updatePhysics s)"
  using timers_ok_filterItems[of "s\<lparr>items := map (advance s) (items s)\<rparr>" "map (advance s) (items s)"]
  by (simp add: updatePhysics_def Let_def split_def)

lemma timers_ok_loop: "timers_ok s \<Longrightarrow> timers_ok (loop s)"
proof (cases "isGameActive s")
  case False
  assume "timers_ok s"
  with False show ?thesis by (simp add: loop_def)
next
  case True
  assume "timers_ok s"
  then have "timers_ok (updatePhysics s)" by (rule timers_ok_updatePhysics)
  then have "timers_ok (snd (requestAnimationFrame (updatePhysics s))\<lparr>gameLoopId :=
      Some (fst (requestAnimationFrame (updatePhysics s)))\<rparr>)"
    by (simp add: requestAnimationFrame_def timers_ok_def owned_snoc_other)
  with True show ?thesis by (simp add: loop_def Let_def split_def)
qed

lemma timers_ok_timerTick: "timers_ok s \<Longrightarrow> timers_ok (timerTick s)"
proof -
  assume ok: "timers_ok s"
  define s3 where "s3 = (let s1 = s\<lparr>timeLimit := timeLimit s - 1\<rparr>;
          s2 = emit (onTimeUpdate (cbs s1)) (TimeUpdate (timeLimit s1)) s1
      in (if timeLimit s2 = 40 \<or> timeLimit s2 = 20
                then (let s2a = s2\<lparr>level := level s2 + 1\<rparr>;
                          s2b = s2a\<lparr>baseSpeed := baseSpeed s2a + 1/10\<rparr>
                      in emit (onScoreChange (cbs s2b)) (ScoreChange (score s2b) (level s2b)) s2b)
                else s2))"
  have tt: "timerTick s = (if timeLimit s3 \<le> 0 then stop s3 ''Timeout'' else s3)"
    by (simp add: timerTick_def s3_def Let_def)
  have "timers_ok s3" using ok by (simp add: s3_def Let_def emit_eq timers_ok_def)
  then show ?thesis by (simp add: tt timers_ok_stop)
qed

lemma timers_ok_spawnItem [simp]: "timers_ok (spawnItem s r1 rand) = timers_ok s"
  by (simp add: spawnItem_def Let_def emit_eq timers_ok_def)

lemma spawnItem_frame [simp]:
  "pending (spawnItem s r1 rand) = pending s"
  "nextTimerId (spawnItem s r1 rand) = nextTimerId s"
  "isGameActive (spawnItem s r1 rand) = isGameActive s"
  "magnetTimer (spawnItem s r1 rand) = magnetTimer s"
  "timeSlowTimer (spawnItem s r1 rand) = timeSlowTimer s"
  "gameTimer (spawnItem s r1 rand) = gameTimer s"
  by (simp_all add: spawnItem_def Let_def emit_eq)

lemma timers_ok_spawn:
  assumes "timers_ok s" "isGameActive s \<longrightarrow> count_kind SpawnTick (pending s) = 0"
  shows "timers_ok (spawn s r1 rand)"
  using assms
  by (simp add: spawn_def setTimer_def Let_def timers_ok_def owned_snoc_other owned_fresh)

lemma timers_ok_startGameLoop: "timers_ok s \<Longrightarrow> timers_ok (startGameLoop s)"
  by (simp add: startGameLoop_def requestAnimationFrame_def timers_ok_def owned_snoc_other)

lemma timers_ok_startTimer:
  assumes "timers_ok s" "count_kind Countdown (pending s) = 0" "isGameActive s"
  shows "timers_ok (startTimer s)"
  using assms
  by (simp add: startTimer_def setTimer_def timers_ok_def owned_snoc_other owned_fresh)

lemma startTimer_SpawnTick:
  "count_kind SpawnTick (pending (startTimer s)) = count_kind SpawnTick (pending s)"
  by (simp add: startTimer_def setTimer_def)

lemma timers_ok_start:
  assumes ok: "timers_ok s"
  shows "timers_ok (start s cfg r1 rand)"
proof (cases "isGameActive s")
  case True
  with ok show ?thesis by (simp add: start_def)
next
  case False
  define s9 where "s9 = s\<lparr>isGameActive := True, score := 0, level := 1,
      timeLimit := (case cfg of None \<Rightarrow> 60 | Some t \<Rightarrow> if t = 0 then 60 else t),
      items := [], currentPose := ''Center'', basketPosition := ''Center'',
      baseSpeed := 3/10, hasShield := False\<rparr>"
  define s12 where "s12 = notifyEffects (disableTimeSlow (disableMagnet s9))"
  have st: "start s cfg r1 rand = startGameLoop (startSpawning (startTimer s12) r1 rand)"
    using False by (simp add: start_def s9_def s12_def Let_def)
  from ok False have idle9: "count_kind Countdown (pending s9) = 0"
    "count_kind SpawnTick (pending s9) = 0"
    by (simp_all add: timers_ok_def s9_def)
  from ok False have "timers_ok s9" by (simp add: timers_ok_def s9_def)
  then have ok12: "timers_ok s12"
    by (simp add: s12_def timers_ok_disableMagnet timers_ok_disableTimeSlow)
  have p12: "pending s12 = clearIf (timeSlowTimer s9) (clearIf (magnetTimer s9) (pending s9))"
    by (simp add: s12_def notifyEffects_eq disableTimeSlow_eq disableMagnet_eq)
  from idle9 have idle12: "count_kind Countdown (pending s12) = 0"
    "count_kind SpawnTick (pending s12) = 0"
    by (simp_all add: p12 count_kind_zero_clearIf)
  have "isGameActive s12"
    by (simp add: s12_def s9_def notifyEffects_eq disableTimeSlow_eq disableMagnet_eq)
  with ok12 idle12(1) have ok13: "timers_ok (startTimer s12)" by (rule timers_ok_startTimer)
  from idle12(2) have "count_kind SpawnTick (pending (startTimer s12)) = 0"
    by (simp add: startTimer_SpawnTick)
  with ok13 have "timers_ok (spawn (startTimer s12) r1 rand)"
    by (simp add: timers_ok_spawn)
  then show ?thesis by (simp add: st startSpawning_def timers_ok_startGameLoop)
qed

lemma timers_ok_onPoseDetected: "timers_ok s \<Longrightarrow> timers_ok (onPoseDetected s p)"
  by (simp add: onPoseDetected_def Let_def emit_eq timers_ok_def)

lemma timers_ok_setCallback: "timers_ok s \<Longrightarrow> timers_ok (setCallback s sl b)"
  by (cases sl) (simp_all add: setCallback_def timers_ok_def)

lemma timers_ok_pending_filter:
  "timers_ok s \<Longrightarrow> timers_ok (s\<lparr>pending := filter P (pending s)\<rparr>)"
  by (simp add: timers_ok_def owned_filter count_kind_zero_filter)

lemma timers_ok_fireFrame: "timers_ok s \<Longrightarrow> timers_ok (fireFrame s h)"
  by (simp add: fireFrame_def timers_ok_loop timers_ok_pending_filter split: option.split)

lemma timers_ok_pending_rearm:
  "timers_ok s \<Longrightarrow>
   timers_ok (s\<lparr>pending := map (\<lambda>u. if u = t then Task (handle t) (kind t) d else u) (pending s)\<rparr>)"
  by (simp add: timers_ok_def owned_map count_kind_map)

lemma timers_ok_fireTimer:
  assumes ok: "timers_ok s"
  shows "timers_ok (fireTimer s h r1 rand)"
proof (cases "find (\<lambda>t. is_timer t \<and> handle t = h \<and> due t \<le> clock s) (pending s)")
  case None
  with ok show ?thesis by (simp add: fireTimer_def)
next
  case (Some t)
  then have mem: "t \<in> set (pending s)"
    by (auto simp: find_Some_iff)
  let ?s' = "s\<lparr>pending := filter (\<lambda>u. u \<noteq> t) (pending s)\<rparr>"
  have ok': "timers_ok ?s'" using ok by (rule timers_ok_pending_filter)
  show ?thesis
  proof (cases "kind t")
    case Countdown
    have "timers_ok (s\<lparr>pending :=
        map (\<lambda>u. if u = t then Task (handle t) Countdown (due t + 1000) else u) (pending s)\<rparr>)"
      using timers_ok_pending_rearm [OF ok, of t "due t + 1000"] unfolding Countdown .
    then have "timers_ok (timerTick (s\<lparr>pending :=
        map (\<lambda>u. if u = t then Task (handle t) Countdown (due t + 1000) else u) (pending s)\<rparr>))"
      by (rule timers_ok_timerTick)
    then show ?thesis using Some Countdown by (simp add: fireTimer_def)
  next
    case SpawnTick
    from ok have "count_kind SpawnTick (pending s) \<le> 1" by (simp add: timers_ok_def owned_def)
    then have "count_kind SpawnTick (pending ?s') = 0"
      using mem SpawnTick by (simp add: count_kind_fired)
    with ok' have "timers_ok (spawn ?s' r1 rand)" by (simp add: timers_ok_spawn)
    then show ?thesis using Some SpawnTick by (simp add: fireTimer_def)
  next
    case FrameTick
    with ok Some show ?thesis by (simp add: fireTimer_def)
  next
    case MagnetExpiry
    with ok' Some show ?thesis by (simp add: fireTimer_def timers_ok_disableMagnet)
  next
    case TimeSlowExpiry
    with ok' Some show ?thesis by (simp add: fireTimer_def timers_ok_disableTimeSlow)
  qed
qed

lemma timers_ok_step: "timers_ok s \<Longrightarrow> timers_ok (step s a)"
proof (cases a)
  case (Elapse d)
  assume "timers_ok s"
  then show ?thesis using Elapse by (simp add: timers_ok_def)
qed (simp_all add: timers_ok_start timers_ok_stop timers_ok_onPoseDetected
      timers_ok_setCallback timers_ok_fireTimer timers_ok_fireFrame)

lemma timers_ok_run: "timers_ok s \<Longrightarrow> timers_ok (run s as)"
  unfolding run_def by (induction as arbitrary: s) (simp_all add: timers_ok_step)

lemma timers_ok_new: "timers_ok new_GameEngine"
  by (simp add: timers_ok_def new_GameEngine_def owned_def count_kind_def)

lemma timers_ok_reachable: "timers_ok (run new_GameEngine as)"
  by (rule timers_ok_run [OF timers_ok_new])

subsection \<open>Stopping a stopped engine\<close>

lemma stop_pending_filter:
  "stop_pending s =
     filter (\<lambda>t. \<not> (is_timer t \<and> Some (handle t) = gameTimer s)
               \<and> \<not> (is_timer t \<and> Some (handle t) = spawnTimer s)
               \<and> \<not> (\<not> is_timer t \<and> Some (handle t) = gameLoopId s)
               \<and> \<not> (truthy (magnetTimer s) \<and> is_timer t \<and> Some (handle t) = magnetTimer s)
               \<and> \<not> (truthy (timeSlowTimer s) \<and> is_timer t \<and> Some (handle t) = timeSlowTimer s))
       (pending s)"
  by (auto simp: stop_pending_def clearIf_def intro: filter_cong)

lemma stop_pending_idem: "stop_pending (stop s reason) = stop_pending s"
  by (simp add: stop_pending_filter [of "stop s reason"] stop_eq)
     (auto simp: stop_pending_filter intro: filter_cong)

lemma stop_twice_eq:
  "stop (stop s r) r' =
     (stop s r)\<lparr>emitted := emitted (stop s r) @
        (if onEffectChange (cbs s)
         then [EffectChange (hasShield s) False False, EffectChange (hasShield s) False False]
         else [])
        @ (if onGameEnd (cbs s) then [GameEnd (score s) (level s) r'] else [])\<rparr>"
proof -
  have "stop (stop s r) r' =
     (stop s r)\<lparr>isGameActive := False, isMagnetActive := False, isTimeSlowActive := False,
       pending := stop_pending (stop s r),
       emitted := emitted (stop s r) @ stop_emits (stop s r) r'\<rparr>"
    by (rule stop_eq)
  also have "stop_pending (stop s r) = pending (stop s r)"
    by (simp add: stop_pending_idem) (simp add: stop_eq)
  also have "stop_emits (stop s r) r' = (if onEffectChange (cbs s)
         then [EffectChange (hasShield s) False False, EffectChange (hasShield s) False False]
         else [])
        @ (if onGameEnd (cbs s) then [GameEnd (score s) (level s) r'] else [])"
    by (simp add: stop_emits_def stop_eq)
  finally show ?thesis by (simp add: stop_eq)
qed

lemma filter_kind_zero: "count_kind k ts = 0 \<Longrightarrow> filter (\<lambda>t. kind t = k) ts = []"
  by (simp add: count_kind_def)

subsection \<open>What is pending after a stop; the countdown tick\<close>

lemma only_frames_after_stop:
  assumes ok: "timers_ok s"
  shows "list_all (\<lambda>t. kind t = FrameTick) (stop_pending s)"
proof -
  have z: "count_kind k (stop_pending s) = 0"
    if "k \<noteq> FrameTick" for k
  proof (cases k)
    case Countdown
    with ok show ?thesis by (simp add: timers_ok_def stop_pending_Countdown)
  next
    case SpawnTick
    with ok show ?thesis by (simp add: timers_ok_def stop_pending_SpawnTick)
  next
    case FrameTick
    with that show ?thesis by simp
  next
    case MagnetExpiry
    from ok have "owned MagnetExpiry (magnetTimer s) (pending s)" by (simp add: timers_ok_def)
    then have "count_kind MagnetExpiry (stop_pending s) = 0"
      unfolding stop_pending_def
      by (intro count_kind_zero_clearIf owned_cleared owned_filter) simp_all
    with MagnetExpiry show ?thesis by simp
  next
    case TimeSlowExpiry
    from ok have "owned TimeSlowExpiry (timeSlowTimer s) (pending s)"
      by (simp add: timers_ok_def)
    then have "count_kind TimeSlowExpiry (stop_pending s) = 0"
      unfolding stop_pending_def
      by (intro owned_cleared owned_clearIf owned_filter) simp_all
    with TimeSlowExpiry show ?thesis by simp
  qed
  show ?thesis
    unfolding list_all_iff
  proof
    fix t assume "t \<in> set (stop_pending s)"
    then have "count_kind (kind t) (stop_pending s) \<noteq> 0"
      by (auto simp: count_kind_zero_iff)
    with z [of "kind t"] show "kind t = FrameTick" by blast
  qed
qed

lemma no_timers_after_stop:
  assumes "timers_ok s" "k \<noteq> FrameTick"
  shows "count_kind k (pending (stop s reason)) = 0"
proof -
  from assms(1) have "list_all (\<lambda>t. kind t = FrameTick) (stop_pending s)"
    by (rule only_frames_after_stop)
  with assms(2) have "\<forall>t\<in>set (stop_pending s). kind t \<noteq> k"
    by (auto simp: list_all_iff)
  then show ?thesis by (simp add: stop_eq count_kind_zero_iff)
qed


lemma started_run:
  "started = run new_GameEngine
     [CallSet ScoreChangeSlot True, CallSet GameEndSlot True, CallSet BasketMoveSlot True,
      CallSet ItemSpawnSlot True, CallSet ItemRemoveSlot True, CallSet RenderSlot True,
      CallSet TimeUpdateSlot True, CallSet EffectChangeSlot True,
      CallStart (Some 60) (1/2) (1/2)]"
  by (simp add: started_def listening_def run_def)

lemma timerTick_eq:
  "timerTick s =
     (let t = timeLimit s - 1;
          up = (t = 40 \<or> t = 20);
          s3 = s\<lparr>timeLimit := t,
                 level := (if up then level s + 1 else level s),
                 baseSpeed := (if up then baseSpeed s + 1/10 else baseSpeed s),
                 emitted := emitted s
                   @ (if onTimeUpdate (cbs s) then [TimeUpdate t] else [])
                   @ (if up \<and> onScoreChange (cbs s)
                      then [ScoreChange (score s) (level s + 1)] else [])\<rparr>
      in if t \<le> 0 then stop s3 ''Timeout'' else s3)"
  by (simp add: timerTick_def emit_eq Let_def)


subsection \<open>Catching\<close>

lemma handleCatch_cbs [simp]: "cbs (handleCatch s it) = cbs s"
  by (simp add: handleCatch_def notifyEffects_eq stop_eq activateMagnet_eq
      activateTimeSlow_eq addScore_eq)


subsection \<open>New items\<close>

lemma chooseType_kinds: "fst (chooseType rand) \<in> set kinds"
  by (simp add: chooseType_def kinds_def)


lemma spawnItem_eq:
  "spawnItem s r1 rand =
     s\<lparr>itemCounter := itemCounter s + 1,
       items := items s @ [newItem s r1 rand],
       emitted := emitted s @
         (if onItemSpawn (cbs s) then [ItemSpawn (newItem s r1 rand)] else [])\<rparr>"
  by (simp add: spawnItem_def emit_eq Let_def)

lemma filterItems_kept: "set (snd (filterItems s its)) \<subseteq> set its"
  by (induction its arbitrary: s) (auto simp: split_def Let_def)

lemma advance_frozen:
  "item_originalSpeed (advance s it) = item_originalSpeed it"
  "item_speed (advance s it) = item_speed it"
  "item_id (advance s it) = item_id it"
  "item_type (advance s it) = item_type it"
  by (simp_all add: advance_def Let_def)

lemma updatePhysics_items:
  "set (items (updatePhysics s)) \<subseteq> advance s ` set (items s)"
proof -
  have "items (updatePhysics s)
      = snd (filterItems (s\<lparr>items := map (advance s) (items s)\<rparr>) (map (advance s) (items s)))"
    by (simp add: updatePhysics_def Let_def split_def emit_eq)
  then show ?thesis using filterItems_kept [of "s\<lparr>items := map (advance s) (items s)\<rparr>"
      "map (advance s) (items s)"] by simp
qed

subsection \<open>Score, level and the kinds of the items\<close>

lemma handleCatch_score:
  "score (handleCatch s it) =
     score s + (if item_type it \<in> {''Bomb'', ''Shield'', ''Magnet'', ''Time''} then 0
                else if item_type it = ''Banana'' then 200 else 100)"
  by (simp add: handleCatch_def notifyEffects_eq stop_eq activateMagnet_eq
      activateTimeSlow_eq addScore_eq)

lemma handleCatch_level [simp]: "level (handleCatch s it) = level s"
  by (simp add: handleCatch_def notifyEffects_eq stop_eq activateMagnet_eq
      activateTimeSlow_eq addScore_eq)

lemma handleCatch_items [simp]: "items (handleCatch s it) = items s"
  by (simp add: handleCatch_def notifyEffects_eq stop_eq activateMagnet_eq
      activateTimeSlow_eq addScore_eq)

lemma collide_score:
  "score (fst (collide s it)) =
     (if snd (collide s it) \<or> 100 < item_y it then score s else score (handleCatch s it))"
  by (simp add: collide_def Let_def emit_eq)

lemma collide_level [simp]: "level (fst (collide s it)) = level s"
  by (simp add: collide_def Let_def emit_eq)

lemma collide_score_mono: "score s \<le> score (fst (collide s it))"
  by (simp add: collide_score handleCatch_score)

lemma filterItems_score_mono: "score s \<le> score (fst (filterItems s its))"
proof (induction its arbitrary: s)
  case Nil
  show ?case by simp
next
  case (Cons it rest)
  have "score s \<le> score (fst (collide s it))" by (rule collide_score_mono)
  also have "\<dots> \<le> score (fst (filterItems (fst (collide s it)) rest))" by (rule Cons.IH)
  finally show ?case by (simp add: split_def Let_def)
qed

lemma filterItems_level [simp]: "level (fst (filterItems s its)) = level s"
  by (induction its arbitrary: s) (simp_all add: split_def Let_def)

lemma updatePhysics_score_mono: "score s \<le> score (updatePhysics s)"
  using filterItems_score_mono [of "s\<lparr>items := map (advance s) (items s)\<rparr>"
      "map (advance s) (items s)"]
  by (simp add: updatePhysics_def Let_def split_def emit_eq)

lemma updatePhysics_level [simp]: "level (updatePhysics s) = level s"
  by (simp add: updatePhysics_def Let_def split_def emit_eq)

lemma loop_score_mono: "score s \<le> score (loop s)"
  using updatePhysics_score_mono [of s]
  by (simp add: loop_def requestAnimationFrame_def Let_def)

lemma loop_level [simp]: "level (loop s) = level s"
  by (simp add: loop_def requestAnimationFrame_def Let_def)

lemma fireFrame_score_mono: "score s \<le> score (fireFrame s h)"
proof (cases "find (\<lambda>t. \<not> is_timer t \<and> handle t = h) (pending s)")
  case None
  then show ?thesis by (simp add: fireFrame_def)
next
  case (Some t)
  with loop_score_mono [of "s\<lparr>pending := filter (\<lambda>u. u \<noteq> t) (pending s)\<rparr>"]
  show ?thesis by (simp add: fireFrame_def)
qed

lemma fireFrame_level [simp]: "level (fireFrame s h) = level s"
  by (simp add: fireFrame_def split: option.split)

lemma spawn_score [simp]: "score (spawn s r1 rand) = score s"
  by (simp add: spawn_def spawnItem_eq setTimer_def Let_def)

lemma spawn_level [simp]: "level (spawn s r1 rand) = level s"
  by (simp add: spawn_def spawnItem_eq setTimer_def Let_def)

lemma timerTick_score [simp]: "score (timerTick s) = score s"
  by (simp add: timerTick_eq Let_def stop_eq)

lemma timerTick_level: "level s \<le> level (timerTick s)"
  by (simp add: timerTick_eq Let_def stop_eq)

lemma fireTimer_score [simp]: "score (fireTimer s h r1 rand) = score s"
  by (simp add: fireTimer_def disableMagnet_eq disableTimeSlow_eq
      split: option.split task_kind.split)

lemma fireTimer_level: "level s \<le> level (fireTimer s h r1 rand)"
proof (cases "find (\<lambda>t. is_timer t \<and> handle t = h \<and> due t \<le> clock s) (pending s)")
  case None
  then show ?thesis by (simp add: fireTimer_def)
next
  case (Some t)
  show ?thesis
  proof (cases "kind t")
    case Countdown
    with Some timerTick_level [of "s\<lparr>pending :=
        map (\<lambda>u. if u = t then Task (handle t) Countdown (due t + 1000) else u) (pending s)\<rparr>"]
    show ?thesis by (simp add: fireTimer_def)
  qed (use Some in \<open>simp_all add: fireTimer_def disableMagnet_eq disableTimeSlow_eq\<close>)
qed

lemma step_score_mono:
  assumes "isGameActive s \<or> \<not> is_start a"
  shows "score s \<le> score (step s a)"
  using assms
  by (cases a) (simp_all add: start_def stop_eq onPoseDetected_def emit_eq Let_def
      setCallback_def fireFrame_score_mono split: slot.split)

lemma step_level_mono:
  assumes "isGameActive s \<or> \<not> is_start a"
  shows "level s \<le> level (step s a)"
  using assms
  by (cases a) (simp_all add: start_def stop_eq onPoseDetected_def emit_eq Let_def
      setCallback_def fireTimer_level split: slot.split)

lemma step_score_same:
  assumes "isGameActive s \<or> \<not> is_start a" "\<not> is_frame a"
  shows "score (step s a) = score s"
  using assms
  by (cases a) (simp_all add: start_def stop_eq onPoseDetected_def emit_eq Let_def
      setCallback_def split: slot.split)

lemma newItem_kind: "item_type (newItem s r1 rand) \<in> set kinds"
  using chooseType_kinds [of rand] by (simp add: newItem_def Let_def split_def)

lemma kinds_ok_cong: "items s' = items s \<Longrightarrow> kinds_ok s' = kinds_ok s"
  by (simp add: kinds_ok_def)

lemma spawn_items:
  "items (spawn s r1 rand)
     = (if isGameActive s then items s @ [newItem s r1 rand] else items s)"
  by (simp add: spawn_def spawnItem_eq setTimer_def Let_def)

lemma kinds_ok_spawn: "kinds_ok s \<Longrightarrow> kinds_ok (spawn s r1 rand)"
  by (simp add: kinds_ok_def spawn_items newItem_kind)

lemma kinds_ok_updatePhysics:
  assumes "kinds_ok s"
  shows "kinds_ok (updatePhysics s)"
  unfolding kinds_ok_def list_all_iff
proof
  fix it assume "it \<in> set (items (updatePhysics s))"
  with updatePhysics_items [of s] obtain it0 where "it0 \<in> set (items s)" "it = advance s it0"
    by blast
  with assms show "item_type it \<in> set kinds"
    by (simp add: kinds_ok_def list_all_iff advance_frozen)
qed

lemma kinds_ok_loop: "kinds_ok s \<Longrightarrow> kinds_ok (loop s)"
proof (cases "isGameActive s")
  case True
  assume "kinds_ok s"
  then have "kinds_ok (updatePhysics s)" by (rule kinds_ok_updatePhysics)
  moreover have "items (loop s) = items (updatePhysics s)"
    using True by (simp add: loop_def requestAnimationFrame_def Let_def)
  ultimately show ?thesis by (simp add: kinds_ok_def)
qed (simp add: loop_def)

lemma kinds_ok_pending [simp]: "kinds_ok (s\<lparr>pending := p\<rparr>) = kinds_ok s"
  by (simp add: kinds_ok_def)

lemma kinds_ok_fireFrame: "kinds_ok s \<Longrightarrow> kinds_ok (fireFrame s h)"
  by (simp add: fireFrame_def kinds_ok_loop split: option.split)

lemma kinds_ok_fireTimer: "kinds_ok s \<Longrightarrow> kinds_ok (fireTimer s h r1 rand)"
  by (simp add: fireTimer_def kinds_ok_spawn split: option.split task_kind.split)
     (simp add: kinds_ok_def disableMagnet_eq disableTimeSlow_eq timerTick_eq Let_def stop_eq)

lemma start_items:
  "items (start s cfg r1 rand) = (if isGameActive s then items s
     else [newItem (startTimer (notifyEffects (disableTimeSlow (disableMagnet
       (s\<lparr>isGameActive := True, score := 0, level := 1,
          timeLimit := (case cfg of None \<Rightarrow> 60 | Some t \<Rightarrow> if t = 0 then 60 else t),
          items := [], currentPose := ''Center'', basketPosition := ''Center'',
          baseSpeed := 3/10, hasShield := False\<rparr>))))) r1 rand])"
  by (simp add: start_def Let_def startGameLoop_def requestAnimationFrame_def
      startSpawning_def spawn_items startTimer_def setTimer_def
      notifyEffects_eq disableTimeSlow_eq disableMagnet_eq)

lemma kinds_ok_start: "kinds_ok s \<Longrightarrow> kinds_ok (start s cfg r1 rand)"
  by (simp add: kinds_ok_def start_items newItem_kind)

lemma kinds_ok_step: "kinds_ok s \<Longrightarrow> kinds_ok (step s a)"
proof (cases a)
  case (CallStop reason)
  assume "kinds_ok s"
  with CallStop show ?thesis by (simp add: kinds_ok_def stop_eq)
next
  case (CallPose p)
  assume "kinds_ok s"
  with CallPose show ?thesis by (simp add: kinds_ok_def onPoseDetected_def emit_eq Let_def)
next
  case (CallSet sl b)
  assume "kinds_ok s"
  with CallSet show ?thesis by (cases sl) (simp_all add: kinds_ok_def setCallback_def)
next
  case (Elapse d)
  assume "kinds_ok s"
  with Elapse show ?thesis by (simp add: kinds_ok_def)
qed (simp_all add: kinds_ok_start kinds_ok_fireTimer kinds_ok_fireFrame)

lemma kinds_ok_reachable: "kinds_ok (run new_GameEngine as)"
proof -
  have "kinds_ok s \<Longrightarrow> kinds_ok (foldl step s as)" for s
    by (induction as arbitrary: s) (simp_all add: kinds_ok_step)
  moreover have "kinds_ok new_GameEngine" by (simp add: kinds_ok_def new_GameEngine_def)
  ultimately show ?thesis by (simp add: run_def)
qed

subsection \<open>The notifications of a tick\<close>

lemma collide_cbs [simp]: "cbs (fst (collide s it)) = cbs s"
  by (simp add: collide_def Let_def emit_eq)

lemma filterItems_cbs [simp]: "cbs (fst (filterItems s its)) = cbs s"
  by (induction its arbitrary: s) (simp_all add: split_def Let_def)

lemma updatePhysics_emitted:
  "emitted (updatePhysics s) =
     emitted (fst (filterItems (s\<lparr>items := map (advance s) (items s)\<rparr>)
                     (map (advance s) (items s))))
     @ (if onRender (cbs s) then [Render (items (updatePhysics s))] else [])"
  by (simp add: updatePhysics_def Let_def split_def emit_eq)

lemma collide_bomb:
  assumes "item_type b = ''Bomb''" "\<not> hasShield s" "80 < item_y b" "item_y b < 95"
    "item_lane b = basketPosition s"
  shows "collide s b = (emit (onItemRemove (cbs s)) (ItemRemove (item_id b)) (stop s ''Bomb''), False)"
  using assms by (simp add: collide_def Let_def handleCatch_def collectible_def stop_eq)

section \<open>The engine against its specification\<close>

subsection \<open>Stopping twice\<close>

text \<open>
  C1 (as amended). \<open>stop\<close> has no guard on the active flag. A call of \<open>stop\<close> on an engine
  that \<open>stop\<close> has just left inactive changes no field of the engine and no pending
  task, but it delivers its notifications again: two effect-change notifications and one
  game-end notification (where callbacks are registered). The game-end notification is
  invoked once per call of \<open>stop\<close>.
\<close>

theorem stop_again:
  "stop (stop s r) r' =
     (stop s r)\<lparr>emitted := emitted (stop s r) @
        (if onEffectChange (cbs s)
         then [EffectChange (hasShield s) False False, EffectChange (hasShield s) False False]
         else [])
        @ (if onGameEnd (cbs s) then [GameEnd (score s) (level s) r'] else [])\<rparr>"
  by (rule stop_twice_eq)

theorem stop_again_witness:
  "stop (stop started ''Unknown'') ''Unknown'' =
     (stop started ''Unknown'')\<lparr>emitted := emitted (stop started ''Unknown'') @
        [EffectChange False False False, EffectChange False False False,
         GameEnd 0 1 ''Unknown'']\<rparr>"
proof -
  have "onEffectChange (cbs started) \<and> onGameEnd (cbs started) \<and> \<not> hasShield started
      \<and> score started = 0 \<and> level started = 1"
    by code_simp
  with stop_again [of started "''Unknown''" "''Unknown''"] show ?thesis by simp
qed

text \<open>The claim as stated fails: after a session is stopped, a second \<open>stop\<close> is not a
  no-op, and the session has produced two game-end notifications.\<close>

theorem stop_twice_counterexample:
  "\<not> isGameActive (run started [CallStop None])
   \<and> step (run started [CallStop None]) (CallStop None) \<noteq> run started [CallStop None]
   \<and> game_ends (emitted (run started [CallStop None, CallStop None])) = 2"
  by code_simp

subsection \<open>Catching a Bomb\<close>

text \<open>
  C2. Catching a Bomb with the Shield flag set clears the flag, emits an effect-change
  notification and changes nothing else (score and active flag included). Catching a Bomb
  with the Shield flag clear is \<open>stop("Bomb")\<close>: the session becomes inactive and the
  game-end notification carries the reason \<open>Bomb\<close>. Catching an item of any other kind
  leaves the active flag as it is and emits no game-end notification.
\<close>

theorem bomb_catch:
  "(item_type it = ''Bomb'' \<and> hasShield s \<longrightarrow>
      handleCatch s it =
        s\<lparr>hasShield := False,
          emitted := emitted s @
            (if onEffectChange (cbs s)
             then [EffectChange False (isMagnetActive s) (isTimeSlowActive s)] else [])\<rparr>)
   \<and> (item_type it = ''Bomb'' \<and> \<not> hasShield s \<longrightarrow>
      handleCatch s it = stop s ''Bomb''
      \<and> \<not> isGameActive (handleCatch s it)
      \<and> emitted (handleCatch s it) = emitted s @ stop_emits s ''Bomb'')
   \<and> (item_type it \<noteq> ''Bomb'' \<longrightarrow>
      isGameActive (handleCatch s it) = isGameActive s
      \<and> game_ends (emitted (handleCatch s it)) = game_ends (emitted s))"
  by (simp add: handleCatch_def notifyEffects_eq stop_eq activateMagnet_eq
      activateTimeSlow_eq addScore_eq game_ends_def)

theorem bomb_catch_witness:
  "(hasShield boosted \<and> isGameActive boosted \<and>
    handleCatch boosted (sample ''Bomb'' ''Center'' 81) =
      boosted\<lparr>hasShield := False,
        emitted := emitted boosted @ [EffectChange False True True]\<rparr>)
   \<and> (\<not> hasShield started \<and> isGameActive started \<and>
      \<not> isGameActive (handleCatch started (sample ''Bomb'' ''Center'' 81)) \<and>
      emitted (handleCatch started (sample ''Bomb'' ''Center'' 81)) =
        emitted started @ [EffectChange False False False, EffectChange False False False,
                           GameEnd 0 1 ''Bomb''])
   \<and> (isGameActive (handleCatch started (sample ''Banana'' ''Center'' 81)) \<and>
      game_ends (emitted (handleCatch started (sample ''Banana'' ''Center'' 81))) = 0)"
proof -
  have a: "item_type (sample ''Bomb'' ''Center'' 81) = ''Bomb'' \<and> hasShield boosted
      \<and> isGameActive boosted \<and> onEffectChange (cbs boosted)
      \<and> isMagnetActive boosted \<and> isTimeSlowActive boosted"
    by code_simp
  have b: "\<not> hasShield started \<and> isGameActive started \<and>
      stop_emits started ''Bomb'' = [EffectChange False False False,
        EffectChange False False False, GameEnd 0 1 ''Bomb'']"
    by code_simp
  have c: "item_type (sample ''Banana'' ''Center'' 81) \<noteq> ''Bomb'' \<and>
      game_ends (emitted started) = 0"
    by code_simp
  from bomb_catch [of "sample ''Bomb'' ''Center'' 81" boosted] a
  have 1: "handleCatch boosted (sample ''Bomb'' ''Center'' 81) =
      boosted\<lparr>hasShield := False,
        emitted := emitted boosted @ [EffectChange False True True]\<rparr>"
    by simp
  have b': "stop_emits started ''Bomb'' = [EffectChange False False False,
        EffectChange False False False, GameEnd 0 1 ''Bomb'']"
    using b by blast
  from bomb_catch [of "sample ''Bomb'' ''Center'' 81" started] a b
  have 2: "\<not> isGameActive (handleCatch started (sample ''Bomb'' ''Center'' 81)) \<and>
      emitted (handleCatch started (sample ''Bomb'' ''Center'' 81)) =
        emitted started @ [EffectChange False False False, EffectChange False False False,
                           GameEnd 0 1 ''Bomb'']"
    unfolding b' by blast
  from bomb_catch [of "sample ''Banana'' ''Center'' 81" started] b c
  have 3: "isGameActive (handleCatch started (sample ''Banana'' ''Center'' 81)) \<and>
      game_ends (emitted (handleCatch started (sample ''Banana'' ''Center'' 81))) = 0"
    by simp
  from a b 1 2 3 show ?thesis by blast
qed

subsection \<open>Collision\<close>



subsection \<open>The countdown\<close>

text \<open>
  C4. A countdown tick decrements the remaining time by one and notifies the new value.
  The level goes up by exactly 1 and the base fall speed by exactly 0.1 precisely when the
  decremented remaining time is 40 or 20, and then a score/level-change notification
  carries the unchanged score and the new level; for every other value level and base
  speed stay as they are. The score never changes. When the decremented remaining time
  is zero (or below), the tick ends with \<open>stop("Timeout")\<close> and the session is inactive;
  otherwise the active flag is left as it is.
\<close>

theorem countdown_tick:
  "timerTick s =
     (let t = timeLimit s - 1;
          up = (t = 40 \<or> t = 20);
          s3 = s\<lparr>timeLimit := t,
                 level := (if up then level s + 1 else level s),
                 baseSpeed := (if up then baseSpeed s + 1/10 else baseSpeed s),
                 emitted := emitted s
                   @ (if onTimeUpdate (cbs s) then [TimeUpdate t] else [])
                   @ (if up \<and> onScoreChange (cbs s)
                      then [ScoreChange (score s) (level s + 1)] else [])\<rparr>
      in if t \<le> 0 then stop s3 ''Timeout'' else s3)
   \<and> timeLimit (timerTick s) = timeLimit s - 1
   \<and> level (timerTick s)
       = (if timeLimit s - 1 = 40 \<or> timeLimit s - 1 = 20 then level s + 1 else level s)
   \<and> baseSpeed (timerTick s)
       = (if timeLimit s - 1 = 40 \<or> timeLimit s - 1 = 20 then baseSpeed s + 1/10
          else baseSpeed s)
   \<and> score (timerTick s) = score s
   \<and> isGameActive (timerTick s) = (isGameActive s \<and> 0 < timeLimit s - 1)"
proof -
  have "timeLimit (timerTick s) = timeLimit s - 1"
    by (simp add: timerTick_eq Let_def stop_eq)
  moreover have "level (timerTick s)
       = (if timeLimit s - 1 = 40 \<or> timeLimit s - 1 = 20 then level s + 1 else level s)"
    by (simp add: timerTick_eq Let_def stop_eq)
  moreover have "baseSpeed (timerTick s)
       = (if timeLimit s - 1 = 40 \<or> timeLimit s - 1 = 20 then baseSpeed s + 1/10
          else baseSpeed s)"
    by (simp add: timerTick_eq Let_def stop_eq)
  moreover have "score (timerTick s) = score s"
    by (simp add: timerTick_eq Let_def stop_eq)
  moreover have "isGameActive (timerTick s) = (isGameActive s \<and> 0 < timeLimit s - 1)"
    by (simp add: timerTick_eq Let_def stop_eq)
  ultimately show ?thesis using timerTick_eq [of s] by blast
qed

theorem countdown_tick_witness:
  "level (timerTick (started\<lparr>timeLimit := 41\<rparr>)) = 2
   \<and> baseSpeed (timerTick (started\<lparr>timeLimit := 41\<rparr>)) = 4/10
   \<and> level (timerTick (started\<lparr>timeLimit := 40\<rparr>)) = 1
   \<and> isGameActive (timerTick (started\<lparr>timeLimit := 2\<rparr>))
   \<and> \<not> isGameActive (timerTick (started\<lparr>timeLimit := 1\<rparr>))"
proof -
  have a: "level started = 1 \<and> baseSpeed started = 3/10 \<and> isGameActive started"
    by code_simp
  have lv: "level (timerTick s)
       = (if timeLimit s - 1 = 40 \<or> timeLimit s - 1 = 20 then level s + 1 else level s)"
    and sp: "baseSpeed (timerTick s)
       = (if timeLimit s - 1 = 40 \<or> timeLimit s - 1 = 20 then baseSpeed s + 1/10
          else baseSpeed s)"
    and ac: "isGameActive (timerTick s) = (isGameActive s \<and> 0 < timeLimit s - 1)" for s
    using countdown_tick [of s] by blast+
  from a show ?thesis by (simp add: lv sp ac)
qed

subsection \<open>Spawning\<close>




subsection \<open>Score and level\<close>

text \<open>
  C6. Catching an Apple adds exactly 100 to the score, catching a Banana exactly 200, and
  catching any other kind leaves the score as it is; every item the engine holds is of
  one of the six kinds. Within a physics tick the score changes only through a catch.
  Apart from a call of \<open>start\<close> on an inactive engine, which opens a new session, no
  operation on the engine (method call, timer callback, animation frame) lowers the score
  or the level, and only an animation frame changes the score.
\<close>

theorem score_and_level:
  "(item_type it \<in> set kinds \<longrightarrow>
      score (handleCatch s it)
        = score s + (if item_type it = ''Apple'' then 100
                     else if item_type it = ''Banana'' then 200 else 0))
   \<and> kinds_ok (run new_GameEngine as)
   \<and> score (fst (collide s it))
       = (if snd (collide s it) \<or> 100 < item_y it then score s else score (handleCatch s it))
   \<and> (isGameActive s \<or> \<not> is_start a \<longrightarrow>
        score s \<le> score (step s a) \<and> level s \<le> level (step s a)
        \<and> (\<not> is_frame a \<longrightarrow> score (step s a) = score s))"
proof -
  have 1: "item_type it \<in> set kinds \<longrightarrow>
      score (handleCatch s it)
        = score s + (if item_type it = ''Apple'' then 100
                     else if item_type it = ''Banana'' then 200 else 0)"
    by (auto simp: handleCatch_score kinds_def)
  from 1 kinds_ok_reachable [of as] collide_score [of s it] step_score_mono [of s a]
    step_level_mono [of s a] step_score_same [of s a]
  show ?thesis by blast
qed

theorem score_and_level_witness:
  "score (handleCatch started (sample ''Apple'' ''Center'' 90)) = 100
   \<and> score (handleCatch started (sample ''Banana'' ''Center'' 90)) = 200
   \<and> score (handleCatch started (sample ''Shield'' ''Center'' 90)) = 0
   \<and> kinds_ok started
   \<and> score started \<le> score (step started (FireFrame 1))
   \<and> level started \<le> level (step started (FireTimer 1 0 0))
   \<and> score (step started (CallStart None 0 0)) = score started"
proof -
  have a: "score started = 0 \<and> isGameActive started" by code_simp
  have k: "item_type (sample ''Apple'' ''Center'' 90) = ''Apple''"
    "item_type (sample ''Banana'' ''Center'' 90) = ''Banana''"
    "item_type (sample ''Shield'' ''Center'' 90) = ''Shield''"
    by (simp_all add: sample_def)
  from score_and_level [of "sample ''Apple'' ''Center'' 90" started] a k
  have 1: "score (handleCatch started (sample ''Apple'' ''Center'' 90)) = 100"
    by (simp add: kinds_def)
  from score_and_level [of "sample ''Banana'' ''Center'' 90" started] a k
  have 2: "score (handleCatch started (sample ''Banana'' ''Center'' 90)) = 200"
    by (simp add: kinds_def)
  from score_and_level [of "sample ''Shield'' ''Center'' 90" started] a k
  have 3: "score (handleCatch started (sample ''Shield'' ''Center'' 90)) = 0"
    by (simp add: kinds_def)
  have 4: "kinds_ok started" unfolding started_run using score_and_level by blast
  from score_and_level [of _ started _ "FireFrame 1"] a
  have 5: "score started \<le> score (step started (FireFrame 1))" by blast
  from score_and_level [of _ started _ "FireTimer 1 0 0"] a
  have 6: "level started \<le> level (step started (FireTimer 1 0 0))" by blast
  have "isGameActive started \<and> \<not> is_frame (CallStart None 0 0)" using a by simp
  with score_and_level [of _ started _ "CallStart None 0 0"]
  have 7: "score (step started (CallStart None 0 0)) = score started" by blast
  from 1 2 3 4 5 6 7 show ?thesis by blast
qed

subsection \<open>Timed effects\<close>

text \<open>
  C7. In every state the engine reaches, at most one Magnet expiry and at most one
  TimeSlow expiry is pending. Catching a Magnet (or TimeSlow) item, whether the effect is
  active or not, sets the flag, notifies with the flag set, and leaves exactly one
  pending expiry for the effect, due a full 5000 ms later: a pending earlier expiry is
  cancelled, not kept beside the new one. The flag is never cleared on the way.
\<close>

theorem one_expiry_timer:
  "timers_ok (run new_GameEngine as)
   \<and> (timers_ok s \<longrightarrow>
        count_kind MagnetExpiry (pending s) \<le> 1
      \<and> count_kind TimeSlowExpiry (pending s) \<le> 1
      \<and> timers_ok (handleCatch s it)
      \<and> (item_type it = ''Magnet'' \<longrightarrow>
            filter (\<lambda>t. kind t = MagnetExpiry) (pending (handleCatch s it))
              = [Task (nextTimerId s) MagnetExpiry (clock s + 5000)]
          \<and> isMagnetActive (handleCatch s it)
          \<and> emitted (handleCatch s it) = emitted s @
              (if onEffectChange (cbs s)
               then [EffectChange (hasShield s) True (isTimeSlowActive s)] else []))
      \<and> (item_type it = ''Time'' \<longrightarrow>
            filter (\<lambda>t. kind t = TimeSlowExpiry) (pending (handleCatch s it))
              = [Task (nextTimerId s) TimeSlowExpiry (clock s + 5000)]
          \<and> isTimeSlowActive (handleCatch s it)
          \<and> emitted (handleCatch s it) = emitted s @
              (if onEffectChange (cbs s)
               then [EffectChange (hasShield s) (isMagnetActive s) True] else [])))"
proof -
  have reach: "timers_ok (run new_GameEngine as)" by (rule timers_ok_reachable)
  {
    assume ok: "timers_ok s"
    then have om: "owned MagnetExpiry (magnetTimer s) (pending s)"
      and ot: "owned TimeSlowExpiry (timeSlowTimer s) (pending s)"
      by (simp_all add: timers_ok_def)
    from om ot have counts: "count_kind MagnetExpiry (pending s) \<le> 1"
      "count_kind TimeSlowExpiry (pending s) \<le> 1"
      by (simp_all add: owned_def)
    have ok': "timers_ok (handleCatch s it)" using ok by (rule timers_ok_handleCatch)
    from om have zm: "filter (\<lambda>t. kind t = MagnetExpiry) (clearIf (magnetTimer s) (pending s)) = []"
      by (intro filter_kind_zero owned_cleared) simp_all
    from ot have zt: "filter (\<lambda>t. kind t = TimeSlowExpiry) (clearIf (timeSlowTimer s) (pending s)) = []"
      by (intro filter_kind_zero owned_cleared) simp_all
    have m: "item_type it = ''Magnet'' \<longrightarrow>
            filter (\<lambda>t. kind t = MagnetExpiry) (pending (handleCatch s it))
              = [Task (nextTimerId s) MagnetExpiry (clock s + 5000)]
          \<and> isMagnetActive (handleCatch s it)
          \<and> emitted (handleCatch s it) = emitted s @
              (if onEffectChange (cbs s)
               then [EffectChange (hasShield s) True (isTimeSlowActive s)] else [])"
      by (simp add: handleCatch_def activateMagnet_eq zm)
    have t: "item_type it = ''Time'' \<longrightarrow>
            filter (\<lambda>t. kind t = TimeSlowExpiry) (pending (handleCatch s it))
              = [Task (nextTimerId s) TimeSlowExpiry (clock s + 5000)]
          \<and> isTimeSlowActive (handleCatch s it)
          \<and> emitted (handleCatch s it) = emitted s @
              (if onEffectChange (cbs s)
               then [EffectChange (hasShield s) (isMagnetActive s) True] else [])"
      by (simp add: handleCatch_def activateTimeSlow_eq zt)
    note counts ok' m t
  }
  with reach show ?thesis by blast
qed

theorem one_expiry_timer_witness:
  "timers_ok started
   \<and> filter (\<lambda>t. kind t = MagnetExpiry) (pending (handleCatch started (sample ''Magnet'' ''Left'' 90)))
       = [Task 3 MagnetExpiry 5000]
   \<and> isMagnetActive magnet_twice
   \<and> filter (\<lambda>t. kind t = MagnetExpiry) (pending (handleCatch magnet_twice (sample ''Magnet'' ''Left'' 90)))
       = [Task 4 MagnetExpiry 8000]
   \<and> isMagnetActive (handleCatch magnet_twice (sample ''Magnet'' ''Left'' 90))
   \<and> emitted (handleCatch magnet_twice (sample ''Magnet'' ''Left'' 90))
       = emitted magnet_twice @ [EffectChange False True False]"
proof -
  have s0: "started = run new_GameEngine
     [CallSet ScoreChangeSlot True, CallSet GameEndSlot True, CallSet BasketMoveSlot True,
      CallSet ItemSpawnSlot True, CallSet ItemRemoveSlot True, CallSet RenderSlot True,
      CallSet TimeUpdateSlot True, CallSet EffectChangeSlot True,
      CallStart (Some 60) (1/2) (1/2)]"
    by (simp add: started_def listening_def run_def)
  have ok0: "timers_ok started"
    unfolding s0 using one_expiry_timer by blast
  have ty: "item_type (sample ''Magnet'' ''Left'' 90) = ''Magnet''" by code_simp
  have v0: "nextTimerId started = 3 \<and> clock started = 0" by code_simp
  from one_expiry_timer [of _ started "sample ''Magnet'' ''Left'' 90"] ok0 ty
  have 1: "filter (\<lambda>t. kind t = MagnetExpiry) (pending (handleCatch started (sample ''Magnet'' ''Left'' 90)))
       = [Task (nextTimerId started) MagnetExpiry (clock started + 5000)]"
    and ok1: "timers_ok (handleCatch started (sample ''Magnet'' ''Left'' 90))"
    by blast+
  from ok1 have ok2: "timers_ok magnet_twice"
    unfolding magnet_twice_def by (rule timers_ok_step)
  have v2: "nextTimerId magnet_twice = 4 \<and> clock magnet_twice = 3000
      \<and> isMagnetActive magnet_twice \<and> onEffectChange (cbs magnet_twice)
      \<and> \<not> hasShield magnet_twice \<and> \<not> isTimeSlowActive magnet_twice"
    by code_simp
  from one_expiry_timer [of _ magnet_twice "sample ''Magnet'' ''Left'' 90"] ok2 ty
  have 2: "filter (\<lambda>t. kind t = MagnetExpiry) (pending (handleCatch magnet_twice (sample ''Magnet'' ''Left'' 90)))
              = [Task (nextTimerId magnet_twice) MagnetExpiry (clock magnet_twice + 5000)]
          \<and> isMagnetActive (handleCatch magnet_twice (sample ''Magnet'' ''Left'' 90))
          \<and> emitted (handleCatch magnet_twice (sample ''Magnet'' ''Left'' 90)) = emitted magnet_twice @
              (if onEffectChange (cbs magnet_twice)
               then [EffectChange (hasShield magnet_twice) True (isTimeSlowActive magnet_twice)] else [])"
    by blast
  from ok0 1 2 v0 v2 show ?thesis by simp
qed

subsection \<open>What stop leaves untouched\<close>

text \<open>
  C8 (as amended). \<open>stop\<close> cancels the countdown, spawn and frame tasks and the Magnet
  and TimeSlow expiry timers whose handles the engine holds (in every state the engine
  reaches no expiry timer is pending afterwards), and it also clears the Magnet and
  TimeSlow flags (through \<open>disableMagnet\<close> and \<open>disableTimeSlow\<close>); the Shield flag is left as it
  is. Besides the active flag, these two flags, the pending tasks and the notifications
  delivered, no field is modified.
\<close>

theorem stop_frame:
  "stop s reason =
     s\<lparr>isGameActive := False, isMagnetActive := False, isTimeSlowActive := False,
       pending := stop_pending s,
       emitted := emitted s @ stop_emits s reason\<rparr>
   \<and> hasShield (stop s reason) = hasShield s
   \<and> count_kind MagnetExpiry (pending (stop (run new_GameEngine as) reason)) = 0
   \<and> count_kind TimeSlowExpiry (pending (stop (run new_GameEngine as) reason)) = 0"
  using stop_eq [of s reason] no_timers_after_stop [OF timers_ok_reachable, of _ as reason]
  by simp

theorem stop_frame_witness:
  "isMagnetActive boosted \<and> isTimeSlowActive boosted \<and> hasShield boosted \<and>
   stop boosted ''Unknown'' =
     boosted\<lparr>isGameActive := False, isMagnetActive := False, isTimeSlowActive := False,
       pending := [],
       emitted := emitted boosted @
         [EffectChange True False True, EffectChange True False False,
          GameEnd 0 1 ''Unknown'']\<rparr>"
proof -
  have a: "isMagnetActive boosted \<and> isTimeSlowActive boosted \<and> hasShield boosted"
    by code_simp
  have b: "stop_pending boosted = []" by code_simp
  have c: "stop_emits boosted ''Unknown'' =
     [EffectChange True False True, EffectChange True False False, GameEnd 0 1 ''Unknown'']"
    by code_simp
  from stop_frame [of boosted "''Unknown''"] a b c show ?thesis by simp
qed

text \<open>The claim as stated, that \<open>stop\<close> leaves the Magnet and TimeSlow flags unchanged,
  fails on a session in which both effects are active.\<close>

theorem stop_clears_timed_flags_counterexample:
  "isMagnetActive boosted \<and> isTimeSlowActive boosted \<and>
   isMagnetActive (stop boosted ''Unknown'') \<noteq> isMagnetActive boosted \<and>
   isTimeSlowActive (stop boosted ''Unknown'') \<noteq> isTimeSlowActive boosted"
  by code_simp

subsection \<open>Ticks delivered after a stop\<close>




subsection \<open>A Bomb in the middle of a tick\<close>

text \<open>
  C10. When a Bomb is caught without Shield in the middle of a physics tick, \<open>stop\<close> runs
  (the session is inactive, the game-end notification has fired) and the tick goes on:
  the items behind the Bomb in spawn order are evaluated against the stopped engine. An
  item among them that lies in the catch band in the basket's lane is caught, so that
  after the game-end notification the engine still emits item-removed notifications,
  raises the score and emits a score-change notification for a fruit, or changes and
  notifies an effect. The render notification of the tick, when registered, is the last
  notification of the tick all the same.
\<close>

theorem tick_goes_on_after_bomb:
  "(item_type b = ''Bomb'' \<and> \<not> hasShield s \<and> 80 < item_y b \<and> item_y b < 95
      \<and> item_lane b = basketPosition s \<longrightarrow>
      filterItems s (b # rest)
        = filterItems (emit (onItemRemove (cbs s)) (ItemRemove (item_id b)) (stop s ''Bomb''))
            rest
      \<and> \<not> isGameActive (emit (onItemRemove (cbs s)) (ItemRemove (item_id b)) (stop s ''Bomb''))
      \<and> emitted (emit (onItemRemove (cbs s)) (ItemRemove (item_id b)) (stop s ''Bomb''))
          = emitted s @ stop_emits s ''Bomb''
            @ (if onItemRemove (cbs s) then [ItemRemove (item_id b)] else [])
      \<and> (80 < item_y a \<and> item_y a < 95 \<and> item_lane a = basketPosition s \<longrightarrow>
            filterItems s [b, a]
              = (emit (onItemRemove (cbs s)) (ItemRemove (item_id a))
                   (handleCatch
                      (emit (onItemRemove (cbs s)) (ItemRemove (item_id b)) (stop s ''Bomb''))
                      a),
                 [])))
   \<and> emitted (updatePhysics s) =
       emitted (fst (filterItems (s\<lparr>items := map (advance s) (items s)\<rparr>)
                       (map (advance s) (items s))))
       @ (if onRender (cbs s) then [Render (items (updatePhysics s))] else [])"
proof -
  let ?S = "emit (onItemRemove (cbs s)) (ItemRemove (item_id b)) (stop s ''Bomb'')"
  {
    assume bomb: "item_type b = ''Bomb''" "\<not> hasShield s" "80 < item_y b" "item_y b < 95"
      "item_lane b = basketPosition s"
    then have c: "collide s b = (?S, False)" by (rule collide_bomb)
    then have 1: "filterItems s (b # rest) = filterItems ?S rest"
      by (simp add: split_def Let_def)
    have 2: "\<not> isGameActive ?S" by (simp add: emit_eq stop_eq)
    have 3: "emitted ?S = emitted s @ stop_emits s ''Bomb''
            @ (if onItemRemove (cbs s) then [ItemRemove (item_id b)] else [])"
      by (simp add: emit_eq stop_eq)
    have 4: "filterItems s [b, a]
              = (emit (onItemRemove (cbs s)) (ItemRemove (item_id a)) (handleCatch ?S a), [])"
      if "80 < item_y a" "item_y a < 95" "item_lane a = basketPosition s"
    proof -
      have "basketPosition ?S = basketPosition s" "cbs ?S = cbs s"
        by (simp_all add: emit_eq stop_eq)
      with that have "collide ?S a
          = (emit (onItemRemove (cbs s)) (ItemRemove (item_id a)) (handleCatch ?S a), False)"
        by (simp add: collide_def Let_def)
      with c show ?thesis by (simp add: split_def Let_def)
    qed
    note 1 2 3 4
  }
  with updatePhysics_emitted [of s] show ?thesis by blast
qed

theorem tick_goes_on_after_bomb_witness:
  "isGameActive started \<and> \<not> hasShield started
   \<and> \<not> isGameActive (fst (filterItems started
          [sample ''Bomb'' ''Center'' 81, sample ''Apple'' ''Center'' 82]))
   \<and> score (fst (filterItems started
          [sample ''Bomb'' ''Center'' 81, sample ''Apple'' ''Center'' 82])) = 100
   \<and> emitted (fst (filterItems started
          [sample ''Bomb'' ''Center'' 81, sample ''Apple'' ''Center'' 82]))
       = emitted started @
         [EffectChange False False False, EffectChange False False False,
          GameEnd 0 1 ''Bomb'', ItemRemove 7, ScoreChange 100 1, ItemRemove 7]
   \<and> emitted (fst (filterItems started
          [sample ''Bomb'' ''Center'' 81, sample ''Shield'' ''Center'' 82]))
       = emitted started @
         [EffectChange False False False, EffectChange False False False,
          GameEnd 0 1 ''Bomb'', ItemRemove 7, EffectChange True False False, ItemRemove 7]
   \<and> isGameActive bomb_first
   \<and> emitted (loop bomb_first)
       = emitted bomb_first @
         [EffectChange False False False, EffectChange False False False,
          GameEnd 0 1 ''Bomb'', ItemRemove 1, ScoreChange 100 1, ItemRemove 2,
          EffectChange True False False, ItemRemove 3, Render []]
   \<and> score (loop bomb_first) = 100 \<and> hasShield (loop bomb_first)
   \<and> \<not> isGameActive (loop bomb_first)
   \<and> count_kind FrameTick (pending (loop bomb_first)) = 1"
proof -
  let ?b = "sample ''Bomb'' ''Center'' 81"
  let ?S = "emit (onItemRemove (cbs started)) (ItemRemove (item_id ?b)) (stop started ''Bomb'')"
  have h: "item_type ?b = ''Bomb'' \<and> \<not> hasShield started \<and> 80 < item_y ?b \<and> item_y ?b < 95
      \<and> item_lane ?b = basketPosition started"
    by code_simp
  have ha: "80 < item_y (sample ty ''Center'' 82) \<and> item_y (sample ty ''Center'' 82) < 95
      \<and> item_lane (sample ty ''Center'' 82) = basketPosition started" for ty
  proof -
    have "basketPosition started = ''Center''" by code_simp
    then show ?thesis by (simp add: sample_def)
  qed
  have eq: "filterItems started [?b, sample ty ''Center'' 82]
      = (emit (onItemRemove (cbs started)) (ItemRemove (item_id (sample ty ''Center'' 82)))
           (handleCatch ?S (sample ty ''Center'' 82)), [])" for ty
    using tick_goes_on_after_bomb [of ?b started _ "sample ty ''Center'' 82"] h ha [of ty]
    by blast
  have v1: "\<not> isGameActive (emit (onItemRemove (cbs started))
        (ItemRemove (item_id (sample ''Apple'' ''Center'' 82)))
           (handleCatch ?S (sample ''Apple'' ''Center'' 82)))
     \<and> score (emit (onItemRemove (cbs started))
        (ItemRemove (item_id (sample ''Apple'' ''Center'' 82)))
           (handleCatch ?S (sample ''Apple'' ''Center'' 82))) = 100
     \<and> emitted (emit (onItemRemove (cbs started))
        (ItemRemove (item_id (sample ''Apple'' ''Center'' 82)))
           (handleCatch ?S (sample ''Apple'' ''Center'' 82)))
       = emitted started @
         [EffectChange False False False, EffectChange False False False,
          GameEnd 0 1 ''Bomb'', ItemRemove 7, ScoreChange 100 1, ItemRemove 7]"
    by code_simp
  have v2: "emitted (emit (onItemRemove (cbs started))
        (ItemRemove (item_id (sample ''Shield'' ''Center'' 82)))
           (handleCatch ?S (sample ''Shield'' ''Center'' 82)))
       = emitted started @
         [EffectChange False False False, EffectChange False False False,
          GameEnd 0 1 ''Bomb'', ItemRemove 7, EffectChange True False False, ItemRemove 7]"
    by code_simp
  have v3: "isGameActive started \<and> isGameActive bomb_first
   \<and> emitted (loop bomb_first)
       = emitted bomb_first @
         [EffectChange False False False, EffectChange False False False,
          GameEnd 0 1 ''Bomb'', ItemRemove 1, ScoreChange 100 1, ItemRemove 2,
          EffectChange True False False, ItemRemove 3, Render []]
   \<and> score (loop bomb_first) = 100 \<and> hasShield (loop bomb_first)
   \<and> \<not> isGameActive (loop bomb_first)
   \<and> count_kind FrameTick (pending (loop bomb_first)) = 1"
    by code_simp
  show ?thesis unfolding eq fst_conv using h v1 v2 v3 by blast
qed

subsection \<open>A whole session ending in the middle of a tick\<close>

lemma run_append: "run s (as @ bs) = run (run s as) bs"
  by (simp add: run_def)

lemma frames_Suc: "frames h (Suc n) = FireFrame h # frames (Suc h) n"
  by (simp add: frames_def upt_rec)

lemma fall_fall: "fall n (fall (Suc 0) it) = fall (Suc n) it"
  by (simp add: fall_def algebra_simps)

lemma advance_fall:
  "\<not> isTimeSlowActive s \<Longrightarrow> \<not> isMagnetActive s \<Longrightarrow> advance s it = fall (Suc 0) it"
  by (simp add: advance_def fall_def Let_def)

lemma filterItems_in_flight:
  assumes "\<not> isMagnetActive s"
    "\<forall>it\<in>set its. item_lane it \<noteq> basketPosition s \<and> item_y it \<le> 100"
  shows "filterItems s its = (s, its)"
  using assms(2)
proof (induction its)
  case Nil
  show ?case by simp
next
  case (Cons it rest)
  then have "collide s it = (s, True)"
    using assms(1) by (simp add: collide_def Let_def)
  with Cons show ?case by simp
qed

lemma find_frame:
  "list_all is_timer ps \<Longrightarrow>
   find (\<lambda>t. \<not> is_timer t \<and> handle t = h) (ps @ [Task h FrameTick c]) = Some (Task h FrameTick c)"
  by (induction ps) (simp_all add: is_timer_def)

lemma filter_frame:
  "list_all is_timer ps \<Longrightarrow>
   filter (\<lambda>u. u \<noteq> Task h FrameTick c) (ps @ [Task h FrameTick c]) = ps"
  by (induction ps) (auto simp: is_timer_def)

lemma in_flight_frame:
  assumes "isGameActive s" "\<not> isMagnetActive s" "\<not> isTimeSlowActive s" "\<not> onRender (cbs s)"
    and p: "pending s = ps @ [Task h FrameTick c]" "list_all is_timer ps"
    and its: "\<forall>it\<in>set (items s). item_lane it \<noteq> basketPosition s
        \<and> item_y it + item_originalSpeed it \<le> 100"
  shows "fireFrame s h =
     s\<lparr>items := map (fall (Suc 0)) (items s),
       pending := ps @ [Task (nextFrameId s) FrameTick (clock s)],
       nextFrameId := Suc (nextFrameId s),
       gameLoopId := Some (nextFrameId s)\<rparr>"
proof -
  let ?s' = "s\<lparr>pending := ps\<rparr>"
  have "find (\<lambda>t. \<not> is_timer t \<and> handle t = h) (pending s) = Some (Task h FrameTick c)"
    unfolding p(1) using p(2) by (rule find_frame)
  moreover have "filter (\<lambda>u. u \<noteq> Task h FrameTick c) (pending s) = ps"
    unfolding p(1) using p(2) by (rule filter_frame)
  ultimately have ff: "fireFrame s h = loop ?s'"
    by (simp add: fireFrame_def)
  have adv: "advance ?s' = fall (Suc 0)"
    using assms(2,3) by (intro ext) (simp add: advance_fall)
  have "filterItems (?s'\<lparr>items := map (fall (Suc 0)) (items s)\<rparr>) (map (fall (Suc 0)) (items s))
      = (?s'\<lparr>items := map (fall (Suc 0)) (items s)\<rparr>, map (fall (Suc 0)) (items s))"
    using assms(2) its by (intro filterItems_in_flight) (auto simp: fall_def)
  then have "updatePhysics ?s' = ?s'\<lparr>items := map (fall (Suc 0)) (items s)\<rparr>"
    using assms(4) by (simp add: updatePhysics_def Let_def emit_eq adv)
  with assms(1) show ?thesis
    by (simp add: ff loop_def requestAnimationFrame_def Let_def)
qed

lemma in_flight_frames:
  assumes "isGameActive s" "\<not> isMagnetActive s" "\<not> isTimeSlowActive s" "\<not> onRender (cbs s)"
    and "pending s = ps @ [Task h FrameTick (clock s)]" "list_all is_timer ps"
    and "nextFrameId s = Suc h" "gameLoopId s = Some h"
    and "\<forall>it\<in>set (items s). item_lane it \<noteq> basketPosition s
        \<and> 0 \<le> item_originalSpeed it
        \<and> item_y it + of_nat n * item_originalSpeed it \<le> 100"
  shows "run s (frames h n) =
     s\<lparr>items := map (fall n) (items s),
       pending := ps @ [Task (h + n) FrameTick (clock s)],
       nextFrameId := Suc (h + n),
       gameLoopId := Some (h + n)\<rparr>"
  using assms
proof (induction n arbitrary: s h)
  case 0
  then show ?case by (simp add: frames_def run_def fall_def)
next
  case (Suc n)
  let ?s1 = "s\<lparr>items := map (fall (Suc 0)) (items s),
       pending := ps @ [Task (Suc h) FrameTick (clock s)],
       nextFrameId := Suc (Suc h),
       gameLoopId := Some (Suc h)\<rparr>"
  have one: "\<forall>it\<in>set (items s). item_lane it \<noteq> basketPosition s
        \<and> item_y it + item_originalSpeed it \<le> 100"
  proof
    fix it assume m: "it \<in> set (items s)"
    with Suc.prems(9) have sp: "0 \<le> item_originalSpeed it"
      and le: "item_y it + of_nat (Suc n) * item_originalSpeed it \<le> 100"
      and ln: "item_lane it \<noteq> basketPosition s"
      by blast+
    have "item_originalSpeed it \<le> of_nat (Suc n) * item_originalSpeed it"
      using sp by (simp add: mult_le_cancel_right1)
    with le ln show "item_lane it \<noteq> basketPosition s
        \<and> item_y it + item_originalSpeed it \<le> 100" by simp
  qed
  have st: "fireFrame s h = ?s1"
    using in_flight_frame [OF Suc.prems(1-6) one] Suc.prems(7) by simp
  have rest: "\<forall>it\<in>set (items ?s1). item_lane it \<noteq> basketPosition ?s1
        \<and> 0 \<le> item_originalSpeed it
        \<and> item_y it + of_nat n * item_originalSpeed it \<le> 100"
    using Suc.prems(9) by (auto simp: fall_def algebra_simps)
  have "run ?s1 (frames (Suc h) n) =
     ?s1\<lparr>items := map (fall n) (items ?s1),
       pending := ps @ [Task (Suc h + n) FrameTick (clock ?s1)],
       nextFrameId := Suc (Suc h + n),
       gameLoopId := Some (Suc h + n)\<rparr>"
    using Suc.prems(1-4,6) rest by (intro Suc.IH) simp_all
  then show ?case
    by (simp add: frames_Suc run_def st fall_fall comp_def)
qed


text \<open>
  A Bomb caught in the middle of a tick, with a fruit behind it, arises in a session the
  engine really runs: in the session
  \<open>bomb_then_banana\<close> the last frame catches the Bomb, which ends the game, and then the
  Banana behind it, which raises the final score from 0 to 200 after the game-end
  notification has reported the score 0.
\<close>

lemma bomb_then_banana_session:
  "score (run new_GameEngine bomb_then_banana) = 200
   \<and> \<not> isGameActive (run new_GameEngine bomb_then_banana)
   \<and> emitted (run new_GameEngine bomb_then_banana) =
       [EffectChange False False False, EffectChange False False False,
        EffectChange False False False, EffectChange False False False,
        EffectChange False False False, GameEnd 0 1 ''Bomb'', ItemRemove 0,
        ScoreChange 200 1, ItemRemove 1]
   \<and> count_kind FrameTick (pending (run new_GameEngine bomb_then_banana)) = 1"
proof -
  let ?A = "[CallSet ScoreChangeSlot True, CallSet GameEndSlot True,
      CallSet ItemRemoveSlot True, CallSet EffectChangeSlot True,
      CallStart (Some 60) (1/2) (1/10), CallPose ''Left'']"
  let ?B = "[Elapse 1800, FireTimer 2 (1/2) (2/10), FireFrame 109]"
  let ?C = "[CallPose ''Center'', FireFrame 270]"
  let ?s1 = "run new_GameEngine ?A"
  let ?ps1 = "[Task 1 Countdown 1000, Task 2 SpawnTick 1800]"
  have h1: "isGameActive ?s1 \<and> \<not> isMagnetActive ?s1 \<and> \<not> isTimeSlowActive ?s1
      \<and> \<not> onRender (cbs ?s1)
      \<and> pending ?s1 = ?ps1 @ [Task 1 FrameTick (clock ?s1)]
      \<and> list_all is_timer ?ps1
      \<and> nextFrameId ?s1 = Suc 1 \<and> gameLoopId ?s1 = Some 1
      \<and> (\<forall>it\<in>set (items ?s1). item_lane it \<noteq> basketPosition ?s1
            \<and> 0 \<le> item_originalSpeed it
            \<and> item_y it + of_nat 108 * item_originalSpeed it \<le> 100)"
    by code_simp
  let ?s2 = "?s1\<lparr>items := map (fall 108) (items ?s1),
       pending := ?ps1 @ [Task (1 + 108) FrameTick (clock ?s1)],
       nextFrameId := Suc (1 + 108),
       gameLoopId := Some (1 + 108)\<rparr>"
  have r1: "run ?s1 (frames 1 108) = ?s2"
    using h1 by (intro in_flight_frames) blast+
  let ?s3 = "run ?s2 ?B"
  let ?ps3 = "[Task 1 Countdown 1000, Task 3 SpawnTick 3600]"
  have h3: "isGameActive ?s3 \<and> \<not> isMagnetActive ?s3 \<and> \<not> isTimeSlowActive ?s3
      \<and> \<not> onRender (cbs ?s3)
      \<and> pending ?s3 = ?ps3 @ [Task 110 FrameTick (clock ?s3)]
      \<and> list_all is_timer ?ps3
      \<and> nextFrameId ?s3 = Suc 110 \<and> gameLoopId ?s3 = Some 110
      \<and> (\<forall>it\<in>set (items ?s3). item_lane it \<noteq> basketPosition ?s3
            \<and> 0 \<le> item_originalSpeed it
            \<and> item_y it + of_nat 160 * item_originalSpeed it \<le> 100)"
    by code_simp
  let ?s4 = "?s3\<lparr>items := map (fall 160) (items ?s3),
       pending := ?ps3 @ [Task (110 + 160) FrameTick (clock ?s3)],
       nextFrameId := Suc (110 + 160),
       gameLoopId := Some (110 + 160)\<rparr>"
  have r3: "run ?s3 (frames 110 160) = ?s4"
    using h3 by (intro in_flight_frames) blast+
  have fin: "score (run ?s4 ?C) = 200
   \<and> \<not> isGameActive (run ?s4 ?C)
   \<and> emitted (run ?s4 ?C) =
       [EffectChange False False False, EffectChange False False False,
        EffectChange False False False, EffectChange False False False,
        EffectChange False False False, GameEnd 0 1 ''Bomb'', ItemRemove 0,
        ScoreChange 200 1, ItemRemove 1]
   \<and> count_kind FrameTick (pending (run ?s4 ?C)) = 1"
    by code_simp
  have "run new_GameEngine bomb_then_banana
      = run (run (run (run ?s1 (frames 1 108)) ?B) (frames 110 160)) ?C"
    by (simp only: bomb_then_banana_def run_append)
  also have "\<dots> = run ?s4 ?C" by (simp only: r1 r3)
  finally have eq: "run new_GameEngine bomb_then_banana = run ?s4 ?C" .
  show ?thesis unfolding eq by (rule fin)
qed

end
